theory Spec2Isabelle
  imports Main "HOL-Library.Word"
begin

unbundle bit_operations_syntax

section \<open>Integer types and little-endian access (ff.h, ff.c)\<close>

text \<open>
  The integer types of \<^verbatim>\<open>ff.h\<close>: \<^verbatim>\<open>BYTE\<close> is 8 bits, \<^verbatim>\<open>WORD\<close> 16 bits,
  \<^verbatim>\<open>DWORD\<close> 32 bits. \<^verbatim>\<open>FF_FS_EXFAT\<close> is 0, so \<^verbatim>\<open>LBA_t\<close> and \<^verbatim>\<open>FSIZE_t\<close> are
  \<^verbatim>\<open>DWORD\<close>; \<^verbatim>\<open>UINT\<close>, which the sources use without declaring it, is FatFs's
  unsigned int, 32 bits on the target. A byte buffer is
  a function from the offset behind its base pointer to the byte stored there.
  \<^verbatim>\<open>SS(fs)\<close> is the constant \<^verbatim>\<open>FF_MAX_SS\<close> = 512 and is written out.
\<close>

type_synonym BYTE = "8 word"
type_synonym WORD = "16 word"
type_synonym DWORD = "32 word"
type_synonym UINT = "32 word"
type_synonym LBA_t = "32 word"
type_synonym FSIZE_t = "32 word"
type_synonym mem = "nat \<Rightarrow> BYTE"

definition LD_WORD :: "mem \<Rightarrow> nat \<Rightarrow> WORD" where
  "LD_WORD p i = push_bit 8 (ucast (p (i + 1))) OR ucast (p i)"

definition LD_DWORD :: "mem \<Rightarrow> nat \<Rightarrow> DWORD" where
  "LD_DWORD p i =
     push_bit 24 (ucast (p (i + 3))) OR push_bit 16 (ucast (p (i + 2)))
       OR push_bit 8 (ucast (p (i + 1))) OR ucast (p i)"

definition ST_WORD :: "mem \<Rightarrow> nat \<Rightarrow> WORD \<Rightarrow> mem" where
  "ST_WORD p i val = p(i := ucast val, i + 1 := ucast (drop_bit 8 val))"

definition ST_DWORD :: "mem \<Rightarrow> nat \<Rightarrow> DWORD \<Rightarrow> mem" where
  "ST_DWORD p i val =
     p(i := ucast val,
       i + 1 := ucast (drop_bit 8 (ucast val :: WORD)),
       i + 2 := ucast (drop_bit 16 val),
       i + 3 := ucast (drop_bit 24 val))"

text \<open>\<^verbatim>\<open>memcpy(dst + d, src + s, n)\<close> and \<^verbatim>\<open>memset(dst + d, c, n)\<close>.\<close>

definition memcpy :: "mem \<Rightarrow> nat \<Rightarrow> mem \<Rightarrow> nat \<Rightarrow> nat \<Rightarrow> mem" where
  "memcpy dst d src s n = (\<lambda>i. if d \<le> i \<and> i < d + n then src (s + (i - d)) else dst i)"


section \<open>Result codes and the filesystem object (ff.h)\<close>

datatype FRESULT =
    FR_OK | FR_DISK_ERR | FR_INT_ERR | FR_NOT_READY | FR_NO_FILE | FR_NO_PATH
  | FR_INVALID_NAME | FR_DENIED | FR_EXIST | FR_INVALID_OBJECT | FR_WRITE_PROTECTED
  | FR_INVALID_DRIVE | FR_NOT_ENABLED | FR_NO_FILESYSTEM | FR_MKFS_ABORTED | FR_TIMEOUT
  | FR_LOCKED | FR_NOT_ENOUGH_CORE | FR_TOO_MANY_OPEN_FILES | FR_INVALID_PARAMETER

text \<open>The enumeration value of a result code, as \<^verbatim>\<open>(BYTE)(res)\<close> stores it.\<close>

fun fr_code :: "FRESULT \<Rightarrow> BYTE" where
  "fr_code FR_OK = 0"
| "fr_code FR_DISK_ERR = 1"
| "fr_code FR_INT_ERR = 2"
| "fr_code FR_NOT_READY = 3"
| "fr_code FR_NO_FILE = 4"
| "fr_code FR_NO_PATH = 5"
| "fr_code FR_INVALID_NAME = 6"
| "fr_code FR_DENIED = 7"
| "fr_code FR_EXIST = 8"
| "fr_code FR_INVALID_OBJECT = 9"
| "fr_code FR_WRITE_PROTECTED = 10"
| "fr_code FR_INVALID_DRIVE = 11"
| "fr_code FR_NOT_ENABLED = 12"
| "fr_code FR_NO_FILESYSTEM = 13"
| "fr_code FR_MKFS_ABORTED = 14"
| "fr_code FR_TIMEOUT = 15"
| "fr_code FR_LOCKED = 16"
| "fr_code FR_NOT_ENOUGH_CORE = 17"
| "fr_code FR_TOO_MANY_OPEN_FILES = 18"
| "fr_code FR_INVALID_PARAMETER = 19"

abbreviation (input) FS_FAT12 :: BYTE where "FS_FAT12 \<equiv> 1"
abbreviation (input) FS_FAT16 :: BYTE where "FS_FAT16 \<equiv> 2"
abbreviation (input) FS_FAT32 :: BYTE where "FS_FAT32 \<equiv> 3"

text \<open>
  The \<^verbatim>\<open>FATFS\<close> structure. The field \<^verbatim>\<open>id\<close> is named \<open>fsid\<close>; \<^verbatim>\<open>lfnbuf\<close>, which no
  function reads, is left out.
\<close>

record FATFS =
  fs_type :: BYTE
  pdrv :: BYTE
  n_fats :: BYTE
  wflag :: BYTE
  fsi_flag :: BYTE
  fsid :: WORD
  n_rootdir :: WORD
  csize :: WORD
  last_clst :: DWORD
  free_clst :: DWORD
  n_fatent :: DWORD
  fsize :: DWORD
  volbase :: LBA_t
  fatbase :: LBA_t
  dirbase :: LBA_t
  database :: LBA_t
  winsect :: LBA_t
  win :: mem

text \<open>
  \<^verbatim>\<open>FF_VOLUMES\<close> is 1: there is one filesystem object and one drive. A volume is the
  filesystem object together with
  \<^item> the SD card behind \<^verbatim>\<open>bsp_sdcard.h\<close>: the content of every sector, the sectors
    whose transfer does not return \<^verbatim>\<open>SD_OK\<close>, and whether \<^verbatim>\<open>bsp_sd_init\<close> succeeds;
  \<^item> the status variable \<^verbatim>\<open>Stat\<close> of \<^verbatim>\<open>diskio.c\<close>;
  \<^item> the two file-scope variables of \<^verbatim>\<open>ff.c\<close>: \<open>registered\<close> says that \<^verbatim>\<open>FatFs[0]\<close>
    points to this filesystem object (it is null otherwise), and \<^verbatim>\<open>Fsid\<close> is the
    mount counter.
\<close>

record vol = FATFS +
  sectors :: "LBA_t \<Rightarrow> mem"
  bad :: "LBA_t \<Rightarrow> bool"
  sd_ready :: bool
  Stat :: BYTE
  registered :: bool
  Fsid :: WORD

section \<open>The disk layer (diskio.c)\<close>

abbreviation (input) DEV_SD :: BYTE where "DEV_SD \<equiv> 0"
abbreviation (input) STA_NOINIT :: BYTE where "STA_NOINIT \<equiv> 0x01"
abbreviation (input) STA_PROTECT :: BYTE where "STA_PROTECT \<equiv> 0x04"

definition disk_initialize :: "vol \<Rightarrow> BYTE \<Rightarrow> BYTE \<times> vol" where
  "disk_initialize fs drv =
     (if drv = DEV_SD then
        (let fs' = (if sd_ready fs then fs\<lparr>Stat := Stat fs AND NOT STA_NOINIT\<rparr>
                    else fs\<lparr>Stat := STA_NOINIT\<rparr>)
         in (Stat fs', fs'))
      else (STA_NOINIT, fs))"

text \<open>
  The card fails a transfer of \<open>count\<close> sectors from \<open>sect\<close> when one of them is bad;
  a failed transfer moves no data. \<^verbatim>\<open>ff.c\<close> only compares the result of
  \<^verbatim>\<open>disk_read\<close> and \<^verbatim>\<open>disk_write\<close> with \<^verbatim>\<open>RES_OK\<close>, so every other result is \<open>None\<close>.
  \<^verbatim>\<open>disk_read\<close> returns the bytes it stores behind \<^verbatim>\<open>buff\<close>; \<^verbatim>\<open>disk_write\<close> takes the
  buffer and the offset of \<^verbatim>\<open>buff\<close> in it.
\<close>

definition sd_fails :: "vol \<Rightarrow> LBA_t \<Rightarrow> UINT \<Rightarrow> bool" where
  "sd_fails fs sect count = list_ex (\<lambda>k. bad fs (sect + of_nat k)) [0..<unat count]"

definition disk_read :: "vol \<Rightarrow> BYTE \<Rightarrow> LBA_t \<Rightarrow> UINT \<Rightarrow> mem option" where
  "disk_read fs drv sect count =
     (if drv \<noteq> DEV_SD \<or> count = 0 then None
      else if Stat fs AND STA_NOINIT \<noteq> 0 then None
      else if sd_fails fs sect count then None
      else Some (\<lambda>i. sectors fs (sect + of_nat (i div 512)) (i mod 512)))"

definition disk_write :: "vol \<Rightarrow> BYTE \<Rightarrow> mem \<Rightarrow> nat \<Rightarrow> LBA_t \<Rightarrow> UINT \<Rightarrow> vol option" where
  "disk_write fs drv buff pos sect count =
     (if drv \<noteq> DEV_SD \<or> count = 0 then None
      else if Stat fs AND STA_NOINIT \<noteq> 0 then None
      else if Stat fs AND STA_PROTECT \<noteq> 0 then None
      else if sd_fails fs sect count then None
      else Some (fs\<lparr>sectors := (\<lambda>s. if s - sect < count
                     then memcpy (sectors fs s) 0 buff (pos + unat (s - sect) * 512) 512
                     else sectors fs s)\<rparr>))"

text \<open>\<^verbatim>\<open>get_fattime\<close> returns the fixed time 2025-12-12 12:00:00.\<close>

definition get_fattime :: DWORD where
  "get_fattime = push_bit 25 (2025 - 1980) OR push_bit 21 12 OR push_bit 16 12
                   OR push_bit 11 12 OR push_bit 5 0 OR drop_bit 1 0"

section \<open>The sector window (ff.c)\<close>

definition sync_window :: "vol \<Rightarrow> FRESULT \<times> vol" where
  "sync_window fs =
     (if wflag fs \<noteq> 0 then
        (case disk_write fs (pdrv fs) (win fs) 0 (winsect fs) 1 of
           None \<Rightarrow> (FR_DISK_ERR, fs\<lparr>wflag := 0\<rparr>)
         | Some fs' \<Rightarrow> (FR_OK, fs'\<lparr>wflag := 0\<rparr>))
      else (FR_OK, fs))"

definition move_window :: "vol \<Rightarrow> LBA_t \<Rightarrow> FRESULT \<times> vol" where
  "move_window fs sect =
     (if sect \<noteq> winsect fs then
        (let (res, fs1) = sync_window fs in
         if res = FR_OK then
           (case disk_read fs1 (pdrv fs1) sect 1 of
              None \<Rightarrow> (FR_DISK_ERR, fs1\<lparr>winsect := 0 - 1\<rparr>)
            | Some b \<Rightarrow> (FR_OK, fs1\<lparr>winsect := sect, win := memcpy (win fs1) 0 b 0 512\<rparr>))
         else (res, fs1))
      else (FR_OK, fs))"

section \<open>The FAT accessor and the cluster mapper (ff.c)\<close>

definition get_fat :: "vol \<Rightarrow> DWORD \<Rightarrow> DWORD \<times> vol" where
  "get_fat fs clst =
     (if clst < 2 \<or> clst \<ge> n_fatent fs then (1, fs)
      else if fs_type fs = FS_FAT12 then
        (let bc = clst + clst div 2;
             (r1, fs1) = move_window fs (fatbase fs + bc div 512)
         in if r1 \<noteq> FR_OK then (1, fs1)
            else
              let wc = (ucast (win fs1 (unat (bc mod 512))) :: UINT);
                  bc' = bc + 1;
                  (r2, fs2) = move_window fs1 (fatbase fs1 + bc' div 512)
              in if r2 \<noteq> FR_OK then (1, fs2)
                 else
                   let wc' = wc OR push_bit 8 (ucast (win fs2 (unat (bc' mod 512))))
                   in (if clst AND 1 \<noteq> 0 then drop_bit 4 wc' else wc' AND 0xFFF, fs2))
      else if fs_type fs = FS_FAT16 then
        (let (r1, fs1) = move_window fs (fatbase fs + clst div (512 div 2))
         in if r1 \<noteq> FR_OK then (1, fs1)
            else (ucast (LD_WORD (win fs1) (unat ((clst * 2) mod 512))), fs1))
      else if fs_type fs = FS_FAT32 then
        (let (r1, fs1) = move_window fs (fatbase fs + clst div (512 div 4))
         in if r1 \<noteq> FR_OK then (1, fs1)
            else (LD_DWORD (win fs1) (unat ((clst * 4) mod 512)) AND 0x0FFFFFFF, fs1))
      else (1, fs))"

definition put_fat :: "vol \<Rightarrow> DWORD \<Rightarrow> DWORD \<Rightarrow> FRESULT \<times> vol" where
  "put_fat fs clst val =
     (if clst \<ge> 2 \<and> clst < n_fatent fs then
        (if fs_type fs = FS_FAT12 then
           (let bc = clst + clst div 2;
                (r1, fs1) = move_window fs (fatbase fs + bc div 512)
            in if r1 \<noteq> FR_OK then (r1, fs1)
               else
                 let i = unat (bc mod 512);
                     p = win fs1 i;
                     b = (if clst AND 1 \<noteq> 0
                          then (p AND 0x0F) OR push_bit 4 (ucast val) else ucast val);
                     fs2 = fs1\<lparr>wflag := 1, win := (win fs1)(i := b)\<rparr>;
                     bc' = bc + 1;
                     (r2, fs3) = move_window fs2 (fatbase fs2 + bc' div 512)
                 in if r2 \<noteq> FR_OK then (r2, fs3)
                    else
                      let j = unat (bc' mod 512);
                          q = win fs3 j;
                          b2 = (if clst AND 1 \<noteq> 0 then ucast (drop_bit 4 val)
                                else (q AND 0xF0) OR (ucast (drop_bit 8 val) AND 0x0F))
                      in (FR_OK, fs3\<lparr>wflag := 1, win := (win fs3)(j := b2)\<rparr>))
         else if fs_type fs = FS_FAT16 then
           (let (r1, fs1) = move_window fs (fatbase fs + clst div (512 div 2))
            in if r1 \<noteq> FR_OK then (r1, fs1)
               else (FR_OK, fs1\<lparr>wflag := 1,
                       win := ST_WORD (win fs1) (unat ((clst * 2) mod 512)) (ucast val)\<rparr>))
         else if fs_type fs = FS_FAT32 then
           (let (r1, fs1) = move_window fs (fatbase fs + clst div (512 div 4))
            in if r1 \<noteq> FR_OK then (r1, fs1)
               else
                 let i = unat ((clst * 4) mod 512);
                     val' = (val AND 0x0FFFFFFF) OR (LD_DWORD (win fs1) i AND 0xF0000000)
                 in (FR_OK, fs1\<lparr>wflag := 1, win := ST_DWORD (win fs1) i val'\<rparr>))
         else (FR_INT_ERR, fs))
      else (FR_INT_ERR, fs))"

text \<open>
  \<^verbatim>\<open>clst2sect\<close> reads three fields of the filesystem object and nothing else; its
  argument is the \<^verbatim>\<open>FATFS\<close> part alone, and its result is a sector number.
\<close>

definition clst2sect :: "'a FATFS_scheme \<Rightarrow> DWORD \<Rightarrow> LBA_t" where
  "clst2sect fs clst =
     (let c = clst - 2
      in if c \<ge> n_fatent fs - 2 then 0 else database fs + ucast (csize fs) * c)"

section \<open>Mounting (ff.c)\<close>

text \<open>The byte offsets of the boot sector and of a directory entry that the code uses.\<close>

abbreviation (input) BPB_BytsPerSec :: nat where "BPB_BytsPerSec \<equiv> 11"
abbreviation (input) BPB_SecPerClus :: nat where "BPB_SecPerClus \<equiv> 13"
abbreviation (input) BPB_RsvdSecCnt :: nat where "BPB_RsvdSecCnt \<equiv> 14"
abbreviation (input) BPB_NumFATs :: nat where "BPB_NumFATs \<equiv> 16"
abbreviation (input) BPB_RootEntCnt :: nat where "BPB_RootEntCnt \<equiv> 17"
abbreviation (input) BPB_TotSec16 :: nat where "BPB_TotSec16 \<equiv> 19"
abbreviation (input) BPB_FATSz16 :: nat where "BPB_FATSz16 \<equiv> 22"
abbreviation (input) BPB_TotSec32 :: nat where "BPB_TotSec32 \<equiv> 32"
abbreviation (input) BS_BootSig :: nat where "BS_BootSig \<equiv> 38"
abbreviation (input) BS_FilSysType :: nat where "BS_FilSysType \<equiv> 54"
abbreviation (input) BPB_FATSz32 :: nat where "BPB_FATSz32 \<equiv> 36"
abbreviation (input) BPB_RootClus32 :: nat where "BPB_RootClus32 \<equiv> 44"
abbreviation (input) BS_FilSysType32 :: nat where "BS_FilSysType32 \<equiv> 82"
abbreviation (input) MBR_Table :: nat where "MBR_Table \<equiv> 446"

abbreviation (input) DIR_Name :: nat where "DIR_Name \<equiv> 0"
abbreviation (input) DIR_Attr :: nat where "DIR_Attr \<equiv> 11"
abbreviation (input) DIR_FstClusHI :: nat where "DIR_FstClusHI \<equiv> 20"
abbreviation (input) DIR_WrtTime :: nat where "DIR_WrtTime \<equiv> 22"
abbreviation (input) DIR_WrtDate :: nat where "DIR_WrtDate \<equiv> 24"
abbreviation (input) DIR_FstClusLO :: nat where "DIR_FstClusLO \<equiv> 26"
abbreviation (input) DIR_FileSize :: nat where "DIR_FileSize \<equiv> 28"
abbreviation (input) DDEM :: BYTE where "DDEM \<equiv> 0xE5"
abbreviation (input) SZ_DIRE :: nat where "SZ_DIRE \<equiv> 32"

definition check_fs :: "vol \<Rightarrow> LBA_t \<Rightarrow> FRESULT \<times> vol" where
  "check_fs fs sect =
     (let (res, fs1) = move_window (fs\<lparr>wflag := 0, winsect := 0 - 1\<rparr>) sect
      in if res \<noteq> FR_OK then (FR_DISK_ERR, fs1)
         else if LD_WORD (win fs1) (BS_BootSig - 2) \<noteq> 0xAA55 then (FR_NO_FILESYSTEM, fs1)
         else if LD_DWORD (win fs1) BS_FilSysType AND 0xFFFFFF = 0x544146 then (FR_OK, fs1)
         else if LD_DWORD (win fs1) BS_FilSysType32 AND 0xFFFFFF = 0x544146 then (FR_OK, fs1)
         else (FR_NO_FILESYSTEM, fs1))"

text \<open>
  \<^verbatim>\<open>find_volume\<close> for \<^verbatim>\<open>part\<close> = 0, as its only caller \<^verbatim>\<open>f_mount\<close> calls it: the start
  sector of the first of the four partition entries with a FAT type, 0 when there is none.
\<close>

definition find_volume :: "vol \<Rightarrow> UINT" where
  "find_volume fs =
     (if win fs (MBR_Table + 4) \<noteq> 0 then
        (case List.find (\<lambda>i. win fs (MBR_Table + i * 16 + 4) = 0x0B
                            \<or> win fs (MBR_Table + i * 16 + 4) = 0x0C
                            \<or> win fs (MBR_Table + i * 16 + 4) = 0x06
                            \<or> win fs (MBR_Table + i * 16 + 4) = 0x04
                            \<or> win fs (MBR_Table + i * 16 + 4) = 0x01) [0..<4] of
           Some i \<Rightarrow> LD_DWORD (win fs) (MBR_Table + i * 16 + 8)
         | None \<Rightarrow> 0)
      else 0)"

text \<open>
  \<^verbatim>\<open>f_mount\<close>, in the three parts its comments name. A path is the bytes of the C
  string before its terminator; reading the byte behind them gives the terminator 0.
  The argument \<open>given\<close> says that the pointer \<^verbatim>\<open>fs\<close> is not null (it then points to the
  filesystem object of the volume).
\<close>

definition chr_at :: "BYTE list \<Rightarrow> nat \<Rightarrow> BYTE" where
  "chr_at path j = (if j < length path then path ! j else 0)"

text \<open>Finding the FAT volume: the result of the check, the boot sector, the volume.\<close>

definition mount_find :: "vol \<Rightarrow> FRESULT \<times> DWORD \<times> vol" where
  "mount_find fs =
     (let (fmt, fs1) = check_fs fs 0
      in if fmt = FR_NO_FILESYSTEM then
           (case disk_read fs1 (pdrv fs1) 0 1 of
              None \<Rightarrow> (FR_DISK_ERR, 0, fs1)
            | Some b \<Rightarrow>
                let fs2 = fs1\<lparr>win := memcpy (win fs1) 0 b 0 512\<rparr>;
                    bsect = find_volume fs2
                in if bsect \<noteq> 0 then (let (fmt', fs3) = check_fs fs2 bsect in (fmt', bsect, fs3))
                   else (fmt, bsect, fs2))
         else (fmt, 0, fs1))"

text \<open>Parsing the BPB in the window, for the boot sector \<open>bsect\<close>.\<close>

definition mount_bpb :: "vol \<Rightarrow> DWORD \<Rightarrow> FRESULT \<times> vol" where
  "mount_bpb fs bsect =
     (if LD_WORD (win fs) BPB_BytsPerSec \<noteq> 512 then (FR_NO_FILESYSTEM, fs)
      else
        let farone = (if ucast (LD_WORD (win fs) BPB_FATSz16) = (0 :: DWORD)
                      then LD_DWORD (win fs) BPB_FATSz32
                      else ucast (LD_WORD (win fs) BPB_FATSz16));
            fs1 = fs\<lparr>n_fats := win fs BPB_NumFATs, fsize := farone\<rparr>
        in if n_fats fs1 \<noteq> 1 \<and> n_fats fs1 \<noteq> 2 then (FR_NO_FILESYSTEM, fs1)
           else
             let farone' = farone * ucast (n_fats fs1);
                 fs2 = fs1\<lparr>csize := ucast (win fs1 BPB_SecPerClus)\<rparr>
             in if csize fs2 = 0 \<or> csize fs2 AND (csize fs2 - 1) \<noteq> 0 then (FR_NO_FILESYSTEM, fs2)
                else
                  let fs3 = fs2\<lparr>n_rootdir := LD_WORD (win fs2) BPB_RootEntCnt\<rparr>
                  in if n_rootdir fs3 mod (512 div 32) \<noteq> 0 then (FR_NO_FILESYSTEM, fs3)
                     else
                       let tsect = (if ucast (LD_WORD (win fs3) BPB_TotSec16) = (0 :: DWORD)
                                    then LD_DWORD (win fs3) BPB_TotSec32
                                    else ucast (LD_WORD (win fs3) BPB_TotSec16));
                           nrsv = LD_WORD (win fs3) BPB_RsvdSecCnt
                       in if nrsv = 0 then (FR_NO_FILESYSTEM, fs3)
                          else
                            let fatbase' = bsect + ucast nrsv;
                                sysect = ucast nrsv + farone' + ucast (n_rootdir fs3 div (512 div 32))
                            in if tsect < sysect then (FR_NO_FILESYSTEM, fs3)
                               else
                                 let nclst = (tsect - sysect) div ucast (csize fs3)
                                 in if nclst = 0 then (FR_NO_FILESYSTEM, fs3)
                                    else
                                      let fmt = (if nclst \<le> 0xFF5 then FS_FAT12
                                                 else if nclst \<le> 0xFFF5 then FS_FAT16
                                                 else FS_FAT32);
                                          fs4 = fs3\<lparr>fs_type := fmt,
                                                  n_fatent := nclst + 2,
                                                  volbase := bsect,
                                                  fatbase := fatbase',
                                                  dirbase := fatbase' + farone',
                                                  database := fatbase' + farone'
                                                    + ucast (n_rootdir fs3 div (512 div 32))\<rparr>;
                                          fs5 = (if fmt = FS_FAT32
                                                 then fs4\<lparr>dirbase := LD_DWORD (win fs4) BPB_RootClus32\<rparr>
                                                 else fs4)
                                      in (FR_OK, fs5\<lparr>last_clst := 0xFFFFFFFF,
                                                    free_clst := 0xFFFFFFFF,
                                                    fsid := Fsid fs5 + 1,
                                                    wflag := 0,
                                                    Fsid := Fsid fs5 + 1\<rparr>))"

definition f_mount :: "vol \<Rightarrow> bool \<Rightarrow> BYTE list \<Rightarrow> BYTE \<Rightarrow> FRESULT \<times> vol" where
  "f_mount fs given path opt =
     (if chr_at path 0 \<noteq> 0x30 then (FR_INVALID_DRIVE, fs)
      else
        let fs1 = (if registered fs then fs\<lparr>fs_type := 0\<rparr> else fs);
            fs2 = (if given then fs1\<lparr>fs_type := 0, pdrv := 0\<rparr> else fs1);
            fs3 = fs2\<lparr>registered := given\<rparr>
        in if opt = 0 then (FR_OK, fs3)
           else if \<not> given then (FR_INVALID_OBJECT, fs3)
           else
             let (st, fs4) = disk_initialize fs3 (pdrv fs3)
             in if st AND STA_NOINIT \<noteq> 0 then (FR_NOT_READY, fs4)
                else
                  let (fmt, bsect, fs5) = mount_find fs4
                  in if fmt \<noteq> FR_OK then (fmt, fs5) else mount_bpb fs5 bsect)"

section \<open>What the window operations leave unchanged\<close>

text \<open>
  The window operations change the window (its sector number, its dirty flag, its
  buffer) and the content of the card, and nothing else. The loops below re-read the
  geometry from the filesystem object on every round; these facts bound them.
\<close>

definition same_geom :: "vol \<Rightarrow> vol \<Rightarrow> bool" where
  "same_geom fs fs' \<longleftrightarrow>
     fs_type fs' = fs_type fs \<and> pdrv fs' = pdrv fs \<and> n_fats fs' = n_fats fs
     \<and> fsi_flag fs' = fsi_flag fs \<and> fsid fs' = fsid fs \<and> n_rootdir fs' = n_rootdir fs
     \<and> csize fs' = csize fs \<and> last_clst fs' = last_clst fs \<and> free_clst fs' = free_clst fs
     \<and> n_fatent fs' = n_fatent fs \<and> fsize fs' = fsize fs \<and> volbase fs' = volbase fs
     \<and> fatbase fs' = fatbase fs \<and> dirbase fs' = dirbase fs \<and> database fs' = database fs
     \<and> bad fs' = bad fs \<and> sd_ready fs' = sd_ready fs \<and> Stat fs' = Stat fs
     \<and> registered fs' = registered fs \<and> Fsid fs' = Fsid fs"

lemma same_geom_refl [simp]: "same_geom fs fs"
  by (simp add: same_geom_def)

lemma same_geom_trans: "same_geom a b \<Longrightarrow> same_geom b c \<Longrightarrow> same_geom a c"
  by (simp add: same_geom_def)

lemma same_geom_sync: "same_geom fs (snd (sync_window fs))"
  by (simp add: sync_window_def disk_write_def same_geom_def split: option.splits)

lemma same_geom_move: "same_geom fs (snd (move_window fs s))"
  using same_geom_sync [of fs]
  by (cases "sync_window fs")
    (simp add: move_window_def disk_read_def same_geom_def split: option.splits)

lemma same_geom_step: "same_geom fs a \<Longrightarrow> same_geom fs (snd (move_window a s))"
  using same_geom_move same_geom_trans by blast

lemma same_geom_win [simp]: "same_geom fs (a\<lparr>wflag := x, win := w\<rparr>) = same_geom fs a"
  by (simp add: same_geom_def)

lemma same_geom_get: "same_geom fs (snd (get_fat fs c))"
  by (simp add: get_fat_def Let_def split_def same_geom_step)

lemma same_geom_put: "same_geom fs (snd (put_fat fs c v))"
  by (simp add: put_fat_def Let_def split_def same_geom_step)

lemma move_window_fields [simp]:
  "fs_type (snd (move_window fs s)) = fs_type fs"
  "n_rootdir (snd (move_window fs s)) = n_rootdir fs"
  "n_fatent (snd (move_window fs s)) = n_fatent fs"
  "csize (snd (move_window fs s)) = csize fs"
  "pdrv (snd (move_window fs s)) = pdrv fs"
  "fatbase (snd (move_window fs s)) = fatbase fs"
  "database (snd (move_window fs s)) = database fs"
  "dirbase (snd (move_window fs s)) = dirbase fs"
  "last_clst (snd (move_window fs s)) = last_clst fs"
  "free_clst (snd (move_window fs s)) = free_clst fs"
  "fsid (snd (move_window fs s)) = fsid fs"
  "registered (snd (move_window fs s)) = registered fs"
  "bad (snd (move_window fs s)) = bad fs"
  "Stat (snd (move_window fs s)) = Stat fs"
  using same_geom_move [of fs s] by (simp_all add: same_geom_def)

lemma get_fat_fields [simp]:
  "fs_type (snd (get_fat fs c)) = fs_type fs"
  "n_rootdir (snd (get_fat fs c)) = n_rootdir fs"
  "n_fatent (snd (get_fat fs c)) = n_fatent fs"
  "csize (snd (get_fat fs c)) = csize fs"
  "pdrv (snd (get_fat fs c)) = pdrv fs"
  "fatbase (snd (get_fat fs c)) = fatbase fs"
  "database (snd (get_fat fs c)) = database fs"
  "dirbase (snd (get_fat fs c)) = dirbase fs"
  "last_clst (snd (get_fat fs c)) = last_clst fs"
  "free_clst (snd (get_fat fs c)) = free_clst fs"
  "fsid (snd (get_fat fs c)) = fsid fs"
  "registered (snd (get_fat fs c)) = registered fs"
  "bad (snd (get_fat fs c)) = bad fs"
  "Stat (snd (get_fat fs c)) = Stat fs"
  using same_geom_get [of fs c] by (simp_all add: same_geom_def)

lemma put_fat_fields [simp]:
  "fs_type (snd (put_fat fs c v)) = fs_type fs"
  "n_rootdir (snd (put_fat fs c v)) = n_rootdir fs"
  "n_fatent (snd (put_fat fs c v)) = n_fatent fs"
  "csize (snd (put_fat fs c v)) = csize fs"
  "pdrv (snd (put_fat fs c v)) = pdrv fs"
  "fatbase (snd (put_fat fs c v)) = fatbase fs"
  "database (snd (put_fat fs c v)) = database fs"
  "dirbase (snd (put_fat fs c v)) = dirbase fs"
  "last_clst (snd (put_fat fs c v)) = last_clst fs"
  "free_clst (snd (put_fat fs c v)) = free_clst fs"
  "fsid (snd (put_fat fs c v)) = fsid fs"
  "registered (snd (put_fat fs c v)) = registered fs"
  "bad (snd (put_fat fs c v)) = bad fs"
  "Stat (snd (put_fat fs c v)) = Stat fs"
  using same_geom_put [of fs c v] by (simp_all add: same_geom_def)

section \<open>File handles (ff.h, ff.c)\<close>

text \<open>
  The \<^verbatim>\<open>FIL\<close> structure. \<open>fil_fs\<close> says that the pointer \<^verbatim>\<open>fs\<close> is not null (it then
  points to the filesystem object of the volume); \<^verbatim>\<open>id\<close> is named \<open>fil_id\<close>;
  \<^verbatim>\<open>dir_ptr\<close>, a pointer into the window, is its offset there. The fields
  \<^verbatim>\<open>sect\<close> and \<^verbatim>\<open>buf\<close>, which no function uses, are left out. A handle is passed
  by value, so the branch for a null \<^verbatim>\<open>fp\<close> has no counterpart.
\<close>

record FIL =
  fil_fs :: bool
  fil_id :: WORD
  flag :: BYTE
  err :: BYTE
  fptr :: FSIZE_t
  clust :: DWORD
  dir_sect :: LBA_t
  dir_ptr :: nat
  obj_size :: DWORD
  sclust :: DWORD

abbreviation (input) FA_READ :: BYTE where "FA_READ \<equiv> 0x01"
abbreviation (input) FA_WRITE :: BYTE where "FA_WRITE \<equiv> 0x02"
abbreviation (input) AM_ARC :: BYTE where "AM_ARC \<equiv> 0x20"

subsection \<open>The name in the directory entry\<close>







subsection \<open>Scanning the root directory\<close>


text \<open>The loop condition of the three directory loops, and the first root sector.\<close>

definition dir_more :: "vol \<Rightarrow> UINT \<Rightarrow> bool" where
  "dir_more fs i \<longleftrightarrow> i < ucast (n_rootdir fs) \<or> (fs_type fs = FS_FAT32 \<and> i < 512)"



text \<open>
  The directory loops stop: the entry number grows up to the bound that the loop
  condition reads from the volume, which \<open>dir_step\<close> leaves unchanged.
\<close>

definition dir_limit :: "vol \<Rightarrow> nat" where
  "dir_limit fs =
     (if fs_type fs = FS_FAT32 then max 512 (unat (n_rootdir fs)) else unat (n_rootdir fs))"


lemma dir_more_less:
  assumes "dir_more fs i"
  shows "dir_limit fs - unat (i + 1) < dir_limit fs - unat i"
proof -
  have b: "unat (n_rootdir fs) < 2 ^ 16"
    using unsigned_less [of "n_rootdir fs", where 'a = nat] by simp
  then have n: "unat (ucast (n_rootdir fs) :: 32 word) = unat (n_rootdir fs)"
    by (simp add: unsigned_ucast_eq take_bit_nat_eq_self)
  have lt: "unat i < dir_limit fs"
    using assms n unfolding dir_more_def dir_limit_def
    by (auto simp: word_less_nat_alt)
  have "dir_limit fs \<le> 2 ^ 16" using b by (simp add: dir_limit_def)
  then have "unat i + 1 < 2 ^ 32" using lt by simp
  then have "unat (i + 1) = unat i + 1"
    by (simp add: unat_word_ariths)
  then show ?thesis using lt by simp
qed





subsection \<open>Opening, synchronising and closing\<close>



definition f_sync :: "vol \<Rightarrow> FIL \<Rightarrow> FRESULT \<times> vol \<times> FIL" where
  "f_sync fs fp =
     (if \<not> fil_fs fp then (FR_INVALID_OBJECT, fs, fp)
      else if flag fp AND 0x40 \<noteq> 0 then
        (let (res, fs1) = move_window fs (dir_sect fp)
         in if res \<noteq> FR_OK then (res, fs1, fp)
            else
              let d = dir_ptr fp;
                  w1 = (win fs1)(d + DIR_Attr := win fs1 (d + DIR_Attr) OR AM_ARC);
                  w2 = ST_DWORD w1 (d + DIR_FileSize) (obj_size fp);
                  w3 = ST_WORD w2 (d + DIR_FstClusLO) (ucast (sclust fp));
                  w4 = ST_WORD w3 (d + DIR_FstClusHI) (ucast (drop_bit 16 (sclust fp)));
                  w5 = ST_DWORD w4 (d + DIR_WrtTime) get_fattime;
                  (res', fs2) = sync_window (fs1\<lparr>wflag := 1, win := w5\<rparr>)
              in (res', fs2, fp\<lparr>flag := flag fp AND NOT 0x40\<rparr>))
      else (let (res, fs1) = sync_window fs in (res, fs1, fp)))"

definition f_close :: "vol \<Rightarrow> FIL \<Rightarrow> FRESULT \<times> vol \<times> FIL" where
  "f_close fs fp =
     (if \<not> fil_fs fp then (FR_INVALID_OBJECT, fs, fp)
      else (let (res, fs1, fp1) = f_sync fs fp in (res, fs1, fp1\<lparr>fil_fs := False\<rparr>)))"

subsection \<open>Reading\<close>

text \<open>
  One round of the loop of \<^verbatim>\<open>f_read\<close> either leaves the function through
  \<^verbatim>\<open>ABORT\<close>, which stores the result code in the handle, or goes on. The round has the
  two parts its comments name: resolving the current cluster (\<open>read_clust\<close>) and
  reading the data (\<open>read_data\<close>). Where the C code divides by a cluster size of 0 the
  model has no result (\<open>None\<close>), as it has none for a loop that does not end.
  The buffer of the caller is \<open>buff\<close>, and \<^verbatim>\<open>rbuff\<close> is the offset \<open>pos\<close> in it; the
  results are the result code, the volume, the handle, the buffer and \<^verbatim>\<open>*br\<close>.
\<close>

datatype 'a step = Abort FRESULT vol FIL | Go 'a

definition abort :: "vol \<Rightarrow> FIL \<Rightarrow> FRESULT \<Rightarrow> 'a step" where
  "abort fs fp res = Abort res fs (fp\<lparr>err := fr_code res\<rparr>)"

definition read_clust :: "vol \<Rightarrow> FIL \<Rightarrow> (vol \<times> FIL) step option" where
  "read_clust fs fp =
     (if fptr fp = 0 then Some (Go (fs, fp\<lparr>clust := sclust fp\<rparr>))
      else if csize fs = 0 then None
      else if fptr fp mod (ucast (csize fs) * 512) = 0 then
        (let (clst, fs1) = get_fat fs (clust fp)
         in if clst < 2 \<or> clst \<ge> n_fatent fs1 then Some (abort fs1 fp FR_INT_ERR)
            else Some (Go (fs1, fp\<lparr>clust := clst\<rparr>)))
      else Some (Go (fs, fp)))"

definition read_data :: "vol \<Rightarrow> FIL \<Rightarrow> mem \<Rightarrow> nat \<Rightarrow> UINT \<Rightarrow> (vol \<times> mem \<times> UINT) step option" where
  "read_data fs fp rbuff pos btr =
     (let sect = clst2sect fs (clust fp)
      in if sect = 0 then Some (abort fs fp FR_INT_ERR)
         else if csize fs = 0 then None
         else
           let csect = (fptr fp div 512) mod ucast (csize fs);
               sect' = sect + csect;
               cc = btr div 512
           in if cc > 0 then
                (let cc' = (if csect + cc > ucast (csize fs) then ucast (csize fs) - csect else cc)
                 in case disk_read fs (pdrv fs) sect' cc' of
                      None \<Rightarrow> Some (abort fs fp FR_DISK_ERR)
                    | Some b \<Rightarrow>
                        let rcnt = cc' * 512;
                            rcnt' = (if fptr fp + rcnt > obj_size fp
                                     then obj_size fp - fptr fp else rcnt)
                        in Some (Go (fs, memcpy rbuff pos b 0 (unat cc' * 512), rcnt')))
              else
                (let (res, fs1) = move_window fs sect'
                 in if res \<noteq> FR_OK then Some (abort fs1 fp res)
                    else
                      let rcnt = 512 - fptr fp mod 512;
                          rcnt' = (if rcnt > btr then btr else rcnt);
                          rcnt'' = (if fptr fp + rcnt' > obj_size fp
                                    then obj_size fp - fptr fp else rcnt')
                      in Some (Go (fs1,
                                   memcpy rbuff pos (win fs1) (unat (fptr fp mod 512)) (unat rcnt''),
                                   rcnt''))))"

partial_function (option) f_read_loop ::
  "vol \<Rightarrow> FIL \<Rightarrow> mem \<Rightarrow> nat \<Rightarrow> UINT \<Rightarrow> UINT \<Rightarrow> (FRESULT \<times> vol \<times> FIL \<times> mem \<times> UINT) option" where
  "f_read_loop fs fp rbuff pos btr br =
     (if btr > 0 then
        (if fptr fp \<ge> obj_size fp then Some (FR_OK, fs, fp, rbuff, br)
         else
           (case read_clust fs fp of
              None \<Rightarrow> None
            | Some (Abort r fs' fp') \<Rightarrow> Some (r, fs', fp', rbuff, br)
            | Some (Go (fs1, fp1)) \<Rightarrow>
                (case read_data fs1 fp1 rbuff pos btr of
                   None \<Rightarrow> None
                 | Some (Abort r fs' fp') \<Rightarrow> Some (r, fs', fp', rbuff, br)
                 | Some (Go (fs2, rbuff', rcnt)) \<Rightarrow>
                     f_read_loop fs2 (fp1\<lparr>fptr := fptr fp1 + rcnt\<rparr>) rbuff'
                       (pos + unat rcnt) (btr - rcnt) (br + rcnt))))
      else Some (FR_OK, fs, fp, rbuff, br))"

definition f_read :: "vol \<Rightarrow> FIL \<Rightarrow> mem \<Rightarrow> UINT \<Rightarrow> (FRESULT \<times> vol \<times> FIL \<times> mem \<times> UINT) option" where
  "f_read fs fp buff btr =
     (if \<not> fil_fs fp then Some (FR_INVALID_OBJECT, fs, fp, buff, 0)
      else if err fp \<noteq> 0 then Some (FR_INT_ERR, fs, fp, buff, 0)
      else if flag fp AND FA_READ = 0 then Some (FR_DENIED, fs, fp, buff, 0)
      else f_read_loop fs fp buff 0 btr 0)"


subsection \<open>Writing\<close>

text \<open>
  The search for a free cluster, which \<^verbatim>\<open>f_write\<close> writes out twice: from \<open>clst\<close>
  upwards, back to cluster 2 behind the last one. It gives up (\<^verbatim>\<open>FR_DENIED\<close>, here the
  result \<open>None\<close> for the cluster) only when it wraps and the search started at cluster
  2; the loop has no other exit when no cluster is free.
\<close>

partial_function (option) find_free :: "vol \<Rightarrow> DWORD \<Rightarrow> DWORD \<Rightarrow> (DWORD option \<times> vol) option" where
  "find_free fs scl clst =
     (if clst \<ge> n_fatent fs \<and> 2 = scl then Some (None, fs)
      else
        let clst1 = (if clst \<ge> n_fatent fs then 2 else clst);
            (fat, fs1) = get_fat fs clst1
        in if fat = 0 then Some (Some clst1, fs1) else find_free fs1 scl (clst1 + 1))"

text \<open>Getting or allocating the cluster of the write position.\<close>

definition write_clust :: "vol \<Rightarrow> FIL \<Rightarrow> (vol \<times> FIL) step option" where
  "write_clust fs fp =
     (if fptr fp = 0 \<and> sclust fp = 0 then
        (let scl = (if last_clst fs < 2 \<or> last_clst fs \<ge> n_fatent fs then 2 else last_clst fs)
         in case find_free fs scl scl of
              None \<Rightarrow> None
            | Some (None, fs1) \<Rightarrow> Some (abort fs1 fp FR_DENIED)
            | Some (Some clst, fs1) \<Rightarrow>
                let (res, fs2) = put_fat fs1 clst 0x0FFFFFFF
                in if res \<noteq> FR_OK then Some (abort fs2 fp res)
                   else Some (Go (fs2\<lparr>last_clst := clst\<rparr>, fp\<lparr>clust := clst, sclust := clst\<rparr>)))
      else if csize fs = 0 then None
      else if fptr fp mod (ucast (csize fs) * 512) = 0 then
        (if fptr fp = 0 then Some (Go (fs, fp\<lparr>clust := sclust fp\<rparr>))
         else
           let (clst, fs1) = get_fat fs (clust fp)
           in if clst < 2 then
                (let scl = (if clust fp + 1 \<ge> n_fatent fs1 then 2 else clust fp + 1)
                 in case find_free fs1 scl scl of
                      None \<Rightarrow> None
                    | Some (None, fs2) \<Rightarrow> Some (abort fs2 fp FR_DENIED)
                    | Some (Some ncl, fs2) \<Rightarrow>
                        let (res, fs3) = put_fat fs2 ncl 0x0FFFFFFF
                        in if res \<noteq> FR_OK then Some (abort fs3 fp res)
                           else
                             let (res', fs4) = put_fat fs3 (clust fp) ncl
                             in if res' \<noteq> FR_OK then Some (abort fs4 fp res')
                                else Some (Go (fs4\<lparr>last_clst := ncl\<rparr>, fp\<lparr>clust := ncl\<rparr>)))
              else Some (Go (fs1, fp\<lparr>clust := clst\<rparr>)))
      else Some (Go (fs, fp)))"

text \<open>Writing the data: the source buffer \<open>wbuff\<close> is read from offset \<open>pos\<close>.\<close>

definition write_data :: "vol \<Rightarrow> FIL \<Rightarrow> mem \<Rightarrow> nat \<Rightarrow> UINT \<Rightarrow> (vol \<times> UINT) step option" where
  "write_data fs fp wbuff pos btw =
     (let sect = clst2sect fs (clust fp)
      in if sect = 0 then Some (abort fs fp FR_INT_ERR)
         else if csize fs = 0 then None
         else
           let csect = (fptr fp div 512) mod ucast (csize fs);
               sect' = sect + csect;
               cc = btw div 512
           in if cc > 0 then
                (let cc' = (if csect + cc > ucast (csize fs) then ucast (csize fs) - csect else cc)
                 in case disk_write fs (pdrv fs) wbuff pos sect' cc' of
                      None \<Rightarrow> Some (abort fs fp FR_DISK_ERR)
                    | Some fs1 \<Rightarrow> Some (Go (fs1, cc' * 512)))
              else
                (let (res, fs1) = move_window fs sect'
                 in if res \<noteq> FR_OK then Some (abort fs1 fp res)
                    else
                      let wcnt = 512 - fptr fp mod 512;
                          wcnt' = (if wcnt > btw then btw else wcnt)
                      in Some (Go (fs1\<lparr>wflag := 1,
                                     win := memcpy (win fs1) (unat (fptr fp mod 512)) wbuff pos
                                              (unat wcnt')\<rparr>,
                                   wcnt'))))"

partial_function (option) f_write_loop ::
  "vol \<Rightarrow> FIL \<Rightarrow> mem \<Rightarrow> nat \<Rightarrow> UINT \<Rightarrow> UINT \<Rightarrow> (FRESULT \<times> vol \<times> FIL \<times> UINT) option" where
  "f_write_loop fs fp wbuff pos btw bw =
     (if btw > 0 then
        (case write_clust fs fp of
           None \<Rightarrow> None
         | Some (Abort r fs' fp') \<Rightarrow> Some (r, fs', fp', bw)
         | Some (Go (fs1, fp1)) \<Rightarrow>
             (case write_data fs1 fp1 wbuff pos btw of
                None \<Rightarrow> None
              | Some (Abort r fs' fp') \<Rightarrow> Some (r, fs', fp', bw)
              | Some (Go (fs2, wcnt)) \<Rightarrow>
                  f_write_loop fs2
                    (if fptr fp1 + wcnt > obj_size fp1
                     then fp1\<lparr>fptr := fptr fp1 + wcnt, obj_size := fptr fp1 + wcnt\<rparr>
                     else fp1\<lparr>fptr := fptr fp1 + wcnt\<rparr>)
                    wbuff (pos + unat wcnt) (btw - wcnt) (bw + wcnt)))
      else Some (FR_OK, fs, fp\<lparr>flag := flag fp OR 0x40\<rparr>, bw))"

definition f_write :: "vol \<Rightarrow> FIL \<Rightarrow> mem \<Rightarrow> UINT \<Rightarrow> (FRESULT \<times> vol \<times> FIL \<times> UINT) option" where
  "f_write fs fp buff btw =
     (if \<not> fil_fs fp then Some (FR_INVALID_OBJECT, fs, fp, 0)
      else if err fp \<noteq> 0 then Some (FR_INT_ERR, fs, fp, 0)
      else if flag fp AND FA_WRITE = 0 then Some (FR_DENIED, fs, fp, 0)
      else f_write_loop fs fp buff 0 btw 0)"

subsection \<open>Seeking\<close>

text \<open>The loop of \<^verbatim>\<open>f_lseek\<close> along the cluster chain, with the addition that follows it.\<close>

partial_function (option) lseek_walk :: "vol \<Rightarrow> FIL \<Rightarrow> FSIZE_t \<Rightarrow> DWORD \<Rightarrow> (FRESULT \<times> vol \<times> FIL) option" where
  "lseek_walk fs fp ofs bcs =
     (if ofs > bcs then
        (let (clst, fs1) = get_fat fs (clust fp)
         in if clst < 2 \<or> clst \<ge> n_fatent fs1 then
              (if flag fp AND FA_WRITE = 0 then Some (FR_INT_ERR, fs1, fp)
               else Some (FR_OK, fs1, fp\<lparr>fptr := fptr fp + ofs\<rparr>))
            else lseek_walk fs1 (fp\<lparr>fptr := fptr fp + bcs, clust := clst\<rparr>) (ofs - bcs) bcs)
      else Some (FR_OK, fs, fp\<lparr>fptr := fptr fp + ofs\<rparr>))"

definition f_lseek :: "vol \<Rightarrow> FIL \<Rightarrow> FSIZE_t \<Rightarrow> (FRESULT \<times> vol \<times> FIL) option" where
  "f_lseek fs fp0 ofs0 =
     (if \<not> fil_fs fp0 then Some (FR_INVALID_OBJECT, fs, fp0)
      else if err fp0 \<noteq> 0 then Some (FR_INT_ERR, fs, fp0)
      else
        let ofs = (if ofs0 > obj_size fp0 \<and> flag fp0 AND FA_WRITE = 0 then obj_size fp0 else ofs0);
            ifptr = fptr fp0;
            fp = fp0\<lparr>fptr := 0\<rparr>
        in if ofs > 0 then
             (let bcs = ucast (csize fs) * 512
              in if ifptr > 0 \<and> bcs = 0 then None
                 else
                   let near = (ifptr > 0 \<and> (ofs - 1) div bcs \<ge> (ifptr - 1) div bcs);
                       fp1 = (if near then fp\<lparr>fptr := (ifptr - 1) AND NOT (bcs - 1)\<rparr> else fp);
                       ofs1 = (if near then ofs - fptr fp1 else ofs)
                   in if sclust fp1 = 0 then
                        (if ofs1 > 0 then Some (FR_INT_ERR, fs, fp1)
                         else Some (FR_OK, fs, fp1\<lparr>clust := 0\<rparr>))
                      else
                        lseek_walk fs (if fptr fp1 = 0 then fp1\<lparr>clust := sclust fp1\<rparr> else fp1)
                          ofs1 bcs)
           else Some (FR_OK, fs, fp))"

section \<open>Directory iteration (ff.h, ff.c)\<close>

text \<open>
  The \<^verbatim>\<open>DIR\<close> and \<^verbatim>\<open>FILINFO\<close> structures, with the fields the functions use.
  \<open>dp_fs\<close> says that the pointer \<^verbatim>\<open>fs\<close> is not null; \<open>fname\<close> is the bytes stored
  before the terminator. A null \<^verbatim>\<open>fno\<close> is \<open>None\<close>.
\<close>

record DIR =
  dp_fs :: bool
  dp_id :: WORD
  index :: WORD
  dp_sclust :: DWORD

record FILINFO =
  fno_fsize :: FSIZE_t
  fdate :: WORD
  ftime :: WORD
  fattrib :: BYTE
  fname :: "BYTE list"

definition f_opendir :: "vol \<Rightarrow> DIR \<Rightarrow> BYTE list \<Rightarrow> FRESULT \<times> DIR" where
  "f_opendir fs dp path =
     (if chr_at path 0 \<noteq> 0x30 then (FR_INVALID_DRIVE, dp)
      else if \<not> registered fs \<or> fs_type fs = 0 then (FR_NOT_ENABLED, dp)
      else (FR_OK, dp\<lparr>dp_fs := True, dp_id := fsid fs, index := 0,
                      dp_sclust := (if fs_type fs = FS_FAT32 then dirbase fs else 0)\<rparr>))"

definition f_closedir :: "DIR \<Rightarrow> FRESULT \<times> DIR" where
  "f_closedir dp = (if \<not> dp_fs dp then (FR_INVALID_OBJECT, dp) else (FR_OK, dp\<lparr>dp_fs := False\<rparr>))"

text \<open>The file name that \<^verbatim>\<open>f_readdir\<close> copies from the entry at offset \<open>d\<close>.\<close>

definition entry_name :: "mem \<Rightarrow> nat \<Rightarrow> BYTE list" where
  "entry_name w d =
     takeWhile (\<lambda>c. c \<noteq> 0x20) (map (\<lambda>j. w (d + j)) [0..<8])
       @ (if w (d + 8) \<noteq> 0x20
          then 0x2E # takeWhile (\<lambda>c. c \<noteq> 0x20) (map (\<lambda>j. w (d + j)) [8..<11])
          else [])"

lemma dir_limit_move: "dir_limit (snd (move_window fs s)) = dir_limit fs"
  by (simp add: dir_limit_def)

function readdir_loop ::
  "vol \<Rightarrow> DIR \<Rightarrow> FILINFO \<Rightarrow> LBA_t \<Rightarrow> UINT \<Rightarrow> FRESULT \<times> vol \<times> DIR \<times> FILINFO" where
  "readdir_loop fs dp fno sect i =
     (if dir_more fs i then
        (let moved = (i > ucast (index dp) \<and> i mod (512 div 32) = 0);
             res = (if moved then fst (move_window fs (sect + 1)) else FR_OK);
             fs1 = (if moved then snd (move_window fs (sect + 1)) else fs);
             sect1 = (if moved then sect + 1 else sect);
             d = unat (i mod (512 div 32)) * SZ_DIRE
         in if res \<noteq> FR_OK then (res, fs1, dp, fno)
            else if win fs1 (d + DIR_Name) = 0 then (FR_OK, fs1, dp\<lparr>index := ucast i\<rparr>, fno)
            else if win fs1 (d + DIR_Name) = DDEM then readdir_loop fs1 dp fno sect1 (i + 1)
            else if win fs1 (d + DIR_Attr) AND 0x08 \<noteq> 0 then readdir_loop fs1 dp fno sect1 (i + 1)
            else (FR_OK, fs1, dp\<lparr>index := ucast (i + 1)\<rparr>,
                  fno\<lparr>fno_fsize := LD_DWORD (win fs1) (d + DIR_FileSize),
                      fdate := LD_WORD (win fs1) (d + DIR_WrtDate),
                      ftime := LD_WORD (win fs1) (d + DIR_WrtTime),
                      fattrib := win fs1 (d + DIR_Attr),
                      fname := entry_name (win fs1) d\<rparr>))
      else (FR_OK, fs, dp\<lparr>index := ucast i\<rparr>, fno))"
  by pat_completeness auto
termination
  by (relation "measure (\<lambda>(fs, dp, fno, sect, i). dir_limit fs - unat i)")
    (auto simp: dir_more_less dir_limit_move)

declare readdir_loop.simps [simp del]

definition f_readdir :: "vol \<Rightarrow> DIR \<Rightarrow> FILINFO option \<Rightarrow> FRESULT \<times> vol \<times> DIR \<times> FILINFO option" where
  "f_readdir fs dp fno =
     (if \<not> dp_fs dp then (FR_INVALID_OBJECT, fs, dp, fno)
      else
        (case fno of
           None \<Rightarrow> (FR_OK, fs, dp\<lparr>index := 0\<rparr>, None)
         | Some info \<Rightarrow>
             let info1 = info\<lparr>fname := []\<rparr>;
                 sect = (if fs_type fs = FS_FAT32 then clst2sect fs (dp_sclust dp) else dirbase fs)
                          + ucast (index dp) div (512 div 32);
                 (res, fs1) = move_window fs sect
             in if res \<noteq> FR_OK then (res, fs1, dp, Some info1)
                else
                  (let (r, fs2, dp', info2) = readdir_loop fs1 dp info1 sect (ucast (index dp))
                   in (r, fs2, dp', Some info2))))"

section \<open>Free space (ff.c)\<close>

lemma count_free_less:
  "(clst :: DWORD) < n \<Longrightarrow> unat n - unat (clst + 1) < unat n - unat clst"
  by unat_arith

function count_free :: "vol \<Rightarrow> DWORD \<Rightarrow> DWORD \<Rightarrow> DWORD \<times> vol" where
  "count_free fs clst n =
     (if clst < n_fatent fs
      then count_free (snd (get_fat fs clst)) (clst + 1)
             (if fst (get_fat fs clst) = 0 then n + 1 else n)
      else (n, fs))"
  by pat_completeness auto
termination
  by (relation "measure (\<lambda>(fs, clst, n). unat (n_fatent fs) - unat clst)")
    (auto simp: count_free_less)

declare count_free.simps [simp del]

text \<open>
  \<^verbatim>\<open>f_getfree\<close>: the result code, the volume, and the count stored in \<^verbatim>\<open>*nclst\<close>
  (\<open>None\<close> when nothing is stored).
\<close>

definition f_getfree :: "vol \<Rightarrow> BYTE list \<Rightarrow> FRESULT \<times> vol \<times> DWORD option" where
  "f_getfree fs path =
     (if chr_at path 0 \<noteq> 0x30 then (FR_INVALID_DRIVE, fs, None)
      else if \<not> registered fs \<or> fs_type fs = 0 then (FR_NOT_ENABLED, fs, None)
      else if free_clst fs \<le> n_fatent fs - 2 then (FR_OK, fs, Some (free_clst fs))
      else
        (let (n, fs1) = count_free fs 2 0
         in (FR_OK, fs1\<lparr>free_clst := n\<rparr>, Some n)))"

section \<open>An example volume\<close>

text \<open>
  A mounted FAT12 volume of four clusters of one sector each on a card without faults:
  the boot sector is sector 0, the FAT sector 1, the root directory (16 entries) sector
  2, and the data area starts at sector 3. The first two FAT entries are reserved, every
  other byte of the card is 0, and the window holds sector 0.
\<close>

definition fat12_card :: "LBA_t \<Rightarrow> mem" where
  "fat12_card s i =
     (if s = 1 then (if i = 0 then 0xF8 else if i = 1 \<or> i = 2 then 0xFF else 0) else 0)"

definition vol12 :: vol where
  "vol12 =
     \<lparr>fs_type = FS_FAT12, pdrv = 0, n_fats = 1, wflag = 0, fsi_flag = 0, fsid = 1,
      n_rootdir = 16, csize = 1, last_clst = 0xFFFFFFFF, free_clst = 0xFFFFFFFF,
      n_fatent = 6, fsize = 1, volbase = 0, fatbase = 1, dirbase = 2, database = 3,
      winsect = 0, win = (\<lambda>i. 0),
      sectors = fat12_card, bad = (\<lambda>s. False), sd_ready = True, Stat = 0,
      registered = True, Fsid = 1\<rparr>"

text \<open>
  The same volume with 398 clusters, whose FAT has two sectors (the entry of cluster 341
  has its first byte at offset 511 of the first), and a FAT32 volume.
\<close>

definition vol12_big :: vol where
  "vol12_big = vol12\<lparr>n_fatent := 400, fsize := 2, dirbase := 3, database := 4\<rparr>"

definition vol32 :: vol where
  "vol32 = vol12\<lparr>fs_type := FS_FAT32, n_rootdir := 0, n_fatent := 0x10000, fsize := 512,
             dirbase := 2, database := 513\<rparr>"

text \<open>
  Two cards for the signature check. On \<open>sig36_card\<close> sector 0 has the bytes 55 AA at
  offset 36 and the tag FAT at offset 54, and zeros at offset 0x1FE. On \<open>boot_card\<close>
  sector 0 is laid out as a FAT12/16 boot sector is: the signature 55 AA at offset
  0x1FE, the drive number 0x80 at offset 36, the extended boot signature 0x29 at offset
  38 and the tag FAT at offset 54.
\<close>

definition sig36_card :: "LBA_t \<Rightarrow> mem" where
  "sig36_card s i =
     (if s = 0 then
        (if i = 36 then 0x55 else if i = 37 then 0xAA
         else if i = 54 then 0x46 else if i = 55 then 0x41 else if i = 56 then 0x54
         else 0)
      else 0)"

definition boot_card :: "LBA_t \<Rightarrow> mem" where
  "boot_card s i =
     (if s = 0 then
        (if i = 510 then 0x55 else if i = 511 then 0xAA
         else if i = 36 then 0x80 else if i = 38 then 0x29
         else if i = 54 then 0x46 else if i = 55 then 0x41 else if i = 56 then 0x54
         else 0)
      else 0)"






section \<open>Notions of the specification\<close>


definition valid_clst :: "'a FATFS_scheme \<Rightarrow> DWORD \<Rightarrow> bool" where
  "valid_clst fs c \<longleftrightarrow> 2 \<le> c \<and> c < n_fatent fs"


text \<open>
  A card without faults: the drive is the SD card, it is initialised and not write
  protected, and no sector is bad. The window is coherent when a clean window holds the
  bytes of its sector. \<open>peek fs s i\<close> is byte \<open>i\<close> of sector \<open>s\<close> as the volume has it: the
  byte of the window when the window holds \<open>s\<close>, the byte of the card otherwise.
\<close>

definition fault_free :: "vol \<Rightarrow> bool" where
  "fault_free fs \<longleftrightarrow>
     pdrv fs = DEV_SD \<and> Stat fs AND STA_NOINIT = 0 \<and> Stat fs AND STA_PROTECT = 0
     \<and> (\<forall>s. \<not> bad fs s)"

definition window_ok :: "vol \<Rightarrow> bool" where
  "window_ok fs \<longleftrightarrow> (wflag fs = 0 \<longrightarrow> (\<forall>i<512. win fs i = sectors fs (winsect fs) i))"

definition peek :: "vol \<Rightarrow> LBA_t \<Rightarrow> nat \<Rightarrow> BYTE" where
  "peek fs s i = (if s = winsect fs then win fs i else sectors fs s i)"

text \<open>
  The FAT as the volume has it: \<open>fat_byte fs n\<close> is its byte \<open>n\<close>. A FAT12 entry starts at
  byte \<open>pos12 c\<close> and takes a byte and a half: \<open>entry12 f n od\<close> is the entry read from the
  bytes \<open>f n\<close> and \<open>f (n + 1)\<close>, the upper 12 bits of the 16 for an odd cluster and the
  lower 12 for an even one. \<open>fat32_slot fs c\<close> is the 32-bit word stored for cluster \<open>c\<close>
  of a FAT32 volume. \<open>fat_bits\<close> is the width of an entry, and \<open>fat_ok\<close> says that the
  volume has one of the three FAT types, with at most 4085 clusters when it is FAT12 (as
  \<^verbatim>\<open>f_mount\<close> classifies it).
\<close>

definition fat_byte :: "vol \<Rightarrow> nat \<Rightarrow> BYTE" where
  "fat_byte fs n = peek fs (fatbase fs + of_nat (n div 512)) (n mod 512)"

definition pos12 :: "DWORD \<Rightarrow> nat" where
  "pos12 c = unat c + unat c div 2"

definition entry12 :: "(nat \<Rightarrow> BYTE) \<Rightarrow> nat \<Rightarrow> bool \<Rightarrow> DWORD" where
  "entry12 f n od =
     (let wc = (ucast (f n) :: DWORD) OR push_bit 8 (ucast (f (n + 1)))
      in if od then drop_bit 4 wc else wc AND 0xFFF)"

definition fat32_slot :: "vol \<Rightarrow> DWORD \<Rightarrow> DWORD" where
  "fat32_slot fs c = LD_DWORD (peek fs (fatbase fs + c div 128)) (unat ((c * 4) mod 512))"

definition fat_bits :: "vol \<Rightarrow> nat" where
  "fat_bits fs = (if fs_type fs = FS_FAT12 then 12 else if fs_type fs = FS_FAT16 then 16 else 28)"

definition fat_ok :: "vol \<Rightarrow> bool" where
  "fat_ok fs \<longleftrightarrow>
     (fs_type fs = FS_FAT12 \<and> n_fatent fs \<le> 0xFF7) \<or> fs_type fs = FS_FAT16
       \<or> fs_type fs = FS_FAT32"




section \<open>Cluster mapper\<close>









section \<open>Signature check\<close>

lemma disk_read_one:
  "disk_read fs 0 s 1 =
     (if Stat fs AND 1 \<noteq> 0 \<or> bad fs s then None
      else Some (\<lambda>i. sectors fs (s + of_nat (i div 512)) (i mod 512)))"
  by (simp add: disk_read_def sd_fails_def)

text \<open>
  Once the candidate sector is in the window, \<^verbatim>\<open>check_fs\<close> reads the signature word
  at offset \<^verbatim>\<open>BS_BootSig - 2\<close> = 36 and the two type tags, and nothing else.
\<close>

lemma check_fs_accepts:
  assumes "move_window (fs\<lparr>wflag := 0, winsect := 0 - 1\<rparr>) sect = (FR_OK, fs1)"
  shows "fst (check_fs fs sect) = FR_OK \<longleftrightarrow>
           LD_WORD (win fs1) 36 = 0xAA55
           \<and> (LD_DWORD (win fs1) 54 AND 0xFFFFFF = 0x544146
                \<or> LD_DWORD (win fs1) 82 AND 0xFFFFFF = 0x544146)"
  using assms by (simp add: check_fs_def)

text \<open>
  Claim C3 (the code differs). The claim: the signature check succeeds only if the
  sector has the word 0xAA55 at offset 0x1FE, and a sector without it is rejected with
  \<^verbatim>\<open>FR_NO_FILESYSTEM\<close>. The code reads the word at offset 36: a sector with 0xAA55 at
  offset 36 and zeros at offset 0x1FE passes the check, and a boot sector with 0xAA55 at
  offset 0x1FE and the tag FAT is rejected, by the check and by \<^verbatim>\<open>f_mount\<close>.
\<close>

theorem check_fs_signature_offset:
  "fst (check_fs (vol12\<lparr>sectors := sig36_card\<rparr>) 0) = FR_OK
   \<and> LD_WORD (sig36_card 0) 0x1FE \<noteq> 0xAA55
   \<and> fst (check_fs (vol12\<lparr>sectors := boot_card\<rparr>) 0) = FR_NO_FILESYSTEM
   \<and> LD_WORD (boot_card 0) 0x1FE = 0xAA55
   \<and> fst (f_mount (vol12\<lparr>sectors := boot_card\<rparr>) True [0x30, 0x3A] 1) = FR_NO_FILESYSTEM"
  by (simp add: check_fs_def move_window_def sync_window_def disk_read_one vol12_def
      sig36_card_def boot_card_def LD_WORD_def LD_DWORD_def memcpy_def f_mount_def
      mount_find_def find_volume_def disk_initialize_def chr_at_def Let_def)

section \<open>Rewinding a directory\<close>

text \<open>
  Claim C10. \<^verbatim>\<open>f_readdir\<close> on an open directory object with a null \<^verbatim>\<open>fno\<close> returns
  \<^verbatim>\<open>FR_OK\<close> and sets the index to 0; the volume (the filesystem object and every sector
  of the card) and the other fields of the directory object are as before.
\<close>

theorem f_readdir_rewind:
  "dp_fs dp \<Longrightarrow> f_readdir fs dp None = (FR_OK, fs, dp\<lparr>index := 0\<rparr>, None)"
  by (simp add: f_readdir_def)

theorem f_readdir_rewind_witness:
  "dp_fs \<lparr>dp_fs = True, dp_id = 1, index = 7, dp_sclust = 0\<rparr>
   \<and> f_readdir vol12 \<lparr>dp_fs = True, dp_id = 1, index = 7, dp_sclust = 0\<rparr> None
       = (FR_OK, vol12, \<lparr>dp_fs = True, dp_id = 1, index = 0, dp_sclust = 0\<rparr>, None)"
  using f_readdir_rewind [of "\<lparr>dp_fs = True, dp_id = 1, index = 7, dp_sclust = 0\<rparr>" vol12]
  by simp


section \<open>The window on a card without faults\<close>

lemma word_sub_less_one: "(t :: 32 word) - s < 1 \<longleftrightarrow> t = s"
  by (simp add: word_less_1)

lemma sd_fails_ff: "fault_free fs \<Longrightarrow> \<not> sd_fails fs s n"
  by (simp add: sd_fails_def fault_free_def list_ex_iff)

lemma disk_write_one:
  "fault_free fs \<Longrightarrow>
   disk_write fs (pdrv fs) b 0 s 1
     = Some (fs\<lparr>sectors := (sectors fs)(s := memcpy (sectors fs s) 0 b 0 512)\<rparr>)"
  by (auto simp: disk_write_def sd_fails_ff fault_free_def word_sub_less_one fun_eq_iff)

lemma disk_read_ff:
  "fault_free fs \<Longrightarrow> n \<noteq> 0 \<Longrightarrow>
   disk_read fs (pdrv fs) s n = Some (\<lambda>i. sectors fs (s + of_nat (i div 512)) (i mod 512))"
  by (simp add: disk_read_def sd_fails_ff fault_free_def)

lemma fault_free_geom: "same_geom fs fs' \<Longrightarrow> fault_free fs' = fault_free fs"
  by (simp add: same_geom_def fault_free_def)

lemma sync_window_ff:
  "fault_free fs \<Longrightarrow>
   sync_window fs =
     (FR_OK, if wflag fs \<noteq> 0
             then fs\<lparr>wflag := 0, sectors := (sectors fs)(winsect fs := memcpy (sectors fs (winsect fs)) 0 (win fs) 0 512)\<rparr>
             else fs)"
  by (simp add: sync_window_def disk_write_one)

lemma move_window_ff:
  assumes "fault_free fs"
  shows "fst (move_window fs s) = FR_OK"
    and "winsect (snd (move_window fs s)) = s"
    and "fault_free (snd (move_window fs s))"
    and "wflag (snd (move_window fs s)) = (if s = winsect fs then wflag fs else 0)"
proof -
  have f1: "fault_free (snd (sync_window fs))"
    using assms fault_free_geom [OF same_geom_sync] by simp
  show "fst (move_window fs s) = FR_OK" "winsect (snd (move_window fs s)) = s"
    "wflag (snd (move_window fs s)) = (if s = winsect fs then wflag fs else 0)"
    using assms f1 by (simp_all add: move_window_def sync_window_ff disk_read_ff Let_def)
  show "fault_free (snd (move_window fs s))"
    using assms fault_free_geom [OF same_geom_move] by simp
qed

lemma memcpy_0_512: "i < 512 \<Longrightarrow> memcpy d 0 b 0 512 i = b i"
  by (simp add: memcpy_def)

lemma move_window_peek:
  assumes "fault_free fs" "window_ok fs" "i < 512"
  shows "peek (snd (move_window fs s)) t i = peek fs t i"
  using assms
  by (auto simp: move_window_def sync_window_ff disk_read_ff Let_def peek_def window_ok_def
      memcpy_0_512 fault_free_def)

lemma move_window_ok:
  assumes "fault_free fs" "window_ok fs"
  shows "window_ok (snd (move_window fs s))"
  using assms
  by (auto simp: move_window_def sync_window_ff disk_read_ff Let_def window_ok_def
      memcpy_0_512 fault_free_def)

lemma move_window_win:
  assumes "fault_free fs" "window_ok fs" "i < 512"
  shows "win (snd (move_window fs s)) i = peek fs s i"
  using move_window_peek [OF assms, of s s] move_window_ff(2) [OF assms(1), of s]
  by (simp add: peek_def)

lemma move_window_win_target:
  assumes "fault_free fs" "i < 512"
  shows "win (snd (move_window fs s)) i = peek fs s i"
  using assms
  by (auto simp: move_window_def sync_window_ff disk_read_ff Let_def peek_def
      memcpy_0_512 fault_free_def)

lemma move_window_same: "winsect fs = s \<Longrightarrow> move_window fs s = (FR_OK, fs)"
  by (simp add: move_window_def)

lemma peek_write:
  "peek (fs\<lparr>wflag := x, win := w\<rparr>) t i = (if t = winsect fs then w i else peek fs t i)"
  by (simp add: peek_def)

lemma window_ok_write [simp]: "window_ok (fs\<lparr>wflag := 1, win := w\<rparr>)"
  by (simp add: window_ok_def)

lemma fault_free_write [simp]: "fault_free (fs\<lparr>wflag := x, win := w\<rparr>) = fault_free fs"
  by (simp add: fault_free_def)

lemma peek_move_write:
  assumes "fault_free fs" "window_ok fs" "k < 512"
  shows "peek ((snd (move_window fs s))\<lparr>wflag := 1, win := (win (snd (move_window fs s)))(i := x)\<rparr>) t k
           = (if t = s \<and> k = i then x else peek fs t k)"
  using move_window_peek [OF assms, of s t] move_window_ff(2) [OF assms(1), of s]
  by (auto simp: peek_def)

lemma peek_winsect: "winsect fs = s \<Longrightarrow> peek fs s = win fs"
  by (simp add: peek_def fun_eq_iff)

lemma fat_byte_move:
  assumes "fault_free fs" "window_ok fs"
  shows "fat_byte (snd (move_window fs s)) m = fat_byte fs m"
  using move_window_peek [OF assms, of "m mod 512" s] by (simp add: fat_byte_def)

lemma get_fat_state:
  assumes "fault_free fs" "window_ok fs"
  shows "fault_free (snd (get_fat fs c))" "window_ok (snd (get_fat fs c))"
    "i < 512 \<Longrightarrow> peek (snd (get_fat fs c)) t i = peek fs t i"
  using assms
  by (simp_all add: get_fat_def split_def Let_def move_window_ff move_window_ok move_window_peek)

section \<open>Bytes and bits of FAT entries\<close>

lemma LD_ST_WORD: "LD_WORD (ST_WORD p i v) i = v"
  unfolding LD_WORD_def ST_WORD_def
  apply simp
  apply (rule bit_word_eqI)
  apply (simp add: bit_simps)
  apply (case_tac "n < 8")
   apply (auto simp: not_less)
  done

lemma LD_ST_DWORD: "LD_DWORD (ST_DWORD p i v) i = v"
  unfolding LD_DWORD_def ST_DWORD_def
  apply simp
  apply (rule bit_word_eqI)
  apply (simp add: bit_simps)
  apply (case_tac "n < 8")
   apply (simp)
  apply (case_tac "n < 16")
   apply (auto simp add: not_less)[1]
  apply (case_tac "n < 24")
   apply (auto simp add: not_less)
  done

lemma LD_DWORD_cong:
  "p i = q i \<Longrightarrow> p (i + 1) = q (i + 1) \<Longrightarrow> p (i + 2) = q (i + 2) \<Longrightarrow> p (i + 3) = q (i + 3)
   \<Longrightarrow> LD_DWORD p i = LD_DWORD q i"
  by (simp add: LD_DWORD_def)

lemma ST_DWORD_other: "k < i \<or> i + 3 < k \<Longrightarrow> ST_DWORD p i v k = p k"
  by (auto simp: ST_DWORD_def)

lemma bit_less_exp: "v < 2 ^ k \<Longrightarrow> bit (v :: DWORD) n \<Longrightarrow> n < k"
  by (metis bit_take_bit_iff less_mask_eq take_bit_eq_mask)

lemma bit_lt12: "v < 2 ^ 12 \<Longrightarrow> bit (v :: DWORD) n \<Longrightarrow> n < 12"
  by (metis bit_take_bit_iff less_mask_eq take_bit_eq_mask)

lemma ucast16: "v < 2 ^ 16 \<Longrightarrow> ucast (ucast v :: WORD) = v" for v :: DWORD
  by (rule bit_word_eqI) (auto simp: bit_simps dest: bit_less_exp [where k = 16, simplified])

lemma m4: "(0x0F :: BYTE) = mask 4" "(0xF0 :: BYTE) = NOT (mask 4)" "(0xFFF :: DWORD) = mask 12"
  by (simp_all add: mask_eq_exp_minus_1)

lemma mask28: "(0x0FFFFFFF :: DWORD) = mask 28" "(0xF0000000 :: DWORD) = NOT (mask 28)"
  by (simp_all add: mask_eq_exp_minus_1)

lemma nib_low: "((x AND 0x0F) OR push_bit 4 y) AND 0x0F = x AND 0x0F" for x y :: BYTE
  unfolding m4 by (rule bit_word_eqI) (auto simp: bit_simps)

lemma nib_high: "((x AND 0xF0) OR (y AND 0x0F)) AND 0xF0 = x AND 0xF0" for x y :: BYTE
  unfolding m4 by (rule bit_word_eqI) (auto simp: bit_simps)

lemma odd_word: "(c AND 1 \<noteq> 0) = odd (unat c)" for c :: DWORD
proof -
  have "odd (unat c) = bit (unat c) 0" by (simp add: bit_0)
  also have "\<dots> = bit c 0" by (simp add: bit_unsigned_iff)
  also have "\<dots> = odd c" by (simp add: bit_0)
  finally show ?thesis by (simp add: and_one_eq odd_iff_mod_2_eq_one)
qed

lemma entry12_cong:
  "f n = g n \<Longrightarrow> f (n + 1) = g (n + 1) \<Longrightarrow> entry12 f n od = entry12 g n od"
  by (simp add: entry12_def)

lemma entry12_odd:
  assumes "v < 2 ^ 12"
  shows "entry12 (f(n := (x AND 0x0F) OR push_bit 4 (ucast v), n + 1 := ucast (drop_bit 4 v))) n True = v"
proof (rule bit_word_eqI)
  fix k assume "k < LENGTH(32)"
  show "bit (entry12 (f(n := (x AND 0x0F) OR push_bit 4 (ucast v), n + 1 := ucast (drop_bit 4 v))) n True) k = bit v k"
  proof (cases "k < 12")
    case False
    then have "\<not> bit v k" using bit_lt12 [OF assms] by blast
    moreover from False have "\<not> 4 + k - 8 < 8" by simp
    ultimately show ?thesis using False
      by (simp add: entry12_def Let_def m4 bit_simps)
  next
    case True
    then show ?thesis
      by (cases "k < 4") (auto simp add: entry12_def Let_def m4 bit_simps)
  qed
qed

lemma entry12_even:
  assumes "v < 2 ^ 12"
  shows "entry12 (f(n := ucast v, n + 1 := (x AND 0xF0) OR (ucast (drop_bit 8 v) AND 0x0F))) n False = v"
proof (rule bit_word_eqI)
  fix k assume "k < LENGTH(32)"
  show "bit (entry12 (f(n := ucast v, n + 1 := (x AND 0xF0) OR (ucast (drop_bit 8 v) AND 0x0F))) n False) k = bit v k"
  proof (cases "k < 12")
    case False
    then have "\<not> bit v k" using bit_lt12 [OF assms] by blast
    then show ?thesis using False
      by (simp add: entry12_def Let_def m4 bit_simps)
  next
    case True
    then show ?thesis
      by (cases "k < 8") (auto simp add: entry12_def Let_def m4 bit_simps)
  qed
qed

lemma entry12_keep_low:
  assumes a: "f' n = f n" and b: "f' (n + 1) AND 0x0F = f (n + 1) AND 0x0F"
  shows "entry12 f' n False = entry12 f n False"
proof -
  have l: "bit (f' (Suc n)) k = bit (f (Suc n)) k" if "k < 4" for k
  proof -
    from b have "bit (f' (Suc n) AND mask 4) k = bit (f (Suc n) AND mask 4) k"
      by (simp add: m4)
    then show ?thesis using that by (simp add: bit_simps)
  qed
  show ?thesis
    unfolding entry12_def Let_def m4
    by (rule bit_word_eqI) (auto simp: bit_simps a l)
qed

lemma entry12_keep_high:
  assumes a: "f' (n + 1) = f (n + 1)" and b: "f' n AND 0xF0 = f n AND 0xF0"
  shows "entry12 f' n True = entry12 f n True"
proof -
  have l: "bit (f' n) k = bit (f n) k" if "4 \<le> k" for k
  proof (cases "k < 8")
    case True
    from b have "bit (f' n AND NOT (mask 4)) k = bit (f n AND NOT (mask 4)) k"
      by (simp add: m4)
    then show ?thesis using that True by (simp add: bit_simps)
  next
    case False
    then show ?thesis by (auto dest: bit_imp_le_length)
  qed
  show ?thesis
    unfolding entry12_def Let_def m4
    using a by (intro bit_word_eqI) (auto simp: bit_simps l)
qed

section \<open>FAT accessor\<close>

lemma pos12_words:
  assumes "unat c < 4087"
  shows "(c + c div 2) div 512 = of_nat (pos12 c div 512)"
    and "unat ((c + c div 2) mod 512) = pos12 c mod 512"
    and "(c + c div 2 + 1) div 512 = of_nat ((pos12 c + 1) div 512)"
    and "unat ((c + c div 2 + 1) mod 512) = (pos12 c + 1) mod 512"
proof -
  have d: "unat (c div 2) = unat c div 2" by (simp add: unat_div)
  have u: "unat (c + c div 2) = pos12 c"
    using assms by (simp add: unat_word_ariths(1) d pos12_def)
  have u1: "unat (c + c div 2 + 1) = pos12 c + 1"
    using assms u by (simp add: unat_word_ariths(1) pos12_def)
  show "(c + c div 2) div 512 = of_nat (pos12 c div 512)"
    using u by (simp add: word_arith_nat_div)
  show "unat ((c + c div 2) mod 512) = pos12 c mod 512"
    using u by (simp add: unat_mod)
  show "(c + c div 2 + 1) div 512 = of_nat ((pos12 c + 1) div 512)"
    using u1 by (simp add: word_arith_nat_div)
  show "unat ((c + c div 2 + 1) mod 512) = (pos12 c + 1) mod 512"
    using u1 by (simp add: unat_mod)
qed

lemma get_fat12:
  assumes ff: "fault_free fs" and ok: "window_ok fs" and t: "fs_type fs = FS_FAT12"
    and v: "valid_clst fs c" and b: "unat c < 4087"
  shows "fst (get_fat fs c) = entry12 (fat_byte fs) (pos12 c) (odd (unat c))"
proof -
  let ?s1 = "fatbase fs + of_nat (pos12 c div 512)"
  let ?s2 = "fatbase fs + of_nat ((pos12 c + 1) div 512)"
  let ?fs1 = "snd (move_window fs ?s1)"
  let ?fs2 = "snd (move_window ?fs1 ?s2)"
  have ff1: "fault_free ?fs1" and ok1: "window_ok ?fs1"
    using ff ok by (simp_all add: move_window_ff move_window_ok)
  have w1: "win ?fs1 (pos12 c mod 512) = fat_byte fs (pos12 c)"
    using move_window_win [OF ff ok, of "pos12 c mod 512" ?s1]
    by (simp add: fat_byte_def)
  have "win ?fs2 ((pos12 c + 1) mod 512) = peek ?fs1 ?s2 ((pos12 c + 1) mod 512)"
    using move_window_win [OF ff1 ok1, of "(pos12 c + 1) mod 512" ?s2]
    by simp
  also have "\<dots> = fat_byte fs (pos12 c + 1)"
    using move_window_peek [OF ff ok, of "(pos12 c + 1) mod 512" ?s1 ?s2]
    by (simp add: fat_byte_def)
  finally have w2: "win ?fs2 ((pos12 c + 1) mod 512) = fat_byte fs (pos12 c + 1)" .
  have nv: "\<not> (c < 2 \<or> n_fatent fs \<le> c)"
    using v by (auto simp: valid_clst_def)
  show ?thesis
    using nv t ff ff1 w1 w2
    by (simp add: get_fat_def split_def Let_def pos12_words [OF b] move_window_ff odd_word
        entry12_def)
qed

lemma fat_loc_eq:
  assumes "m < 2 ^ 32" "n < 2 ^ 32"
  shows "((a :: 32 word) + of_nat (m div 512) = a + of_nat (n div 512) \<and> m mod 512 = n mod 512)
           \<longleftrightarrow> m = n"
proof -
  have "m div 512 < 2 ^ 32" "n div 512 < 2 ^ 32" using assms by simp_all
  then have "(of_nat (m div 512) :: 32 word) = of_nat (n div 512) \<longleftrightarrow> m div 512 = n div 512"
    by (simp add: word_of_nat_eq_iff take_bit_nat_eq_self)
  moreover have "m div 512 = n div 512 \<and> m mod 512 = n mod 512 \<longleftrightarrow> m = n"
    by (metis div_mult_mod_eq)
  ultimately show ?thesis by auto
qed

lemma put_fat12_eq:
  assumes v: "valid_clst fs c" and t: "fs_type fs = FS_FAT12"
    and m1: "move_window fs (fatbase fs + (c + c div 2) div 512) = (FR_OK, fs1)"
    and m2: "move_window
               (fs1\<lparr>wflag := 1,
                    win := (win fs1)(unat ((c + c div 2) mod 512) :=
                      (if c AND 1 \<noteq> 0
                       then (win fs1 (unat ((c + c div 2) mod 512)) AND 0x0F) OR push_bit 4 (ucast val)
                       else ucast val))\<rparr>)
               (fatbase fs + (c + c div 2 + 1) div 512) = (FR_OK, fs3)"
  shows "put_fat fs c val =
           (FR_OK,
            fs3\<lparr>wflag := 1,
                win := (win fs3)(unat ((c + c div 2 + 1) mod 512) :=
                  (if c AND 1 \<noteq> 0 then ucast (drop_bit 4 val)
                   else (win fs3 (unat ((c + c div 2 + 1) mod 512)) AND 0xF0)
                          OR (ucast (drop_bit 8 val) AND 0x0F)))\<rparr>)"
proof -
  have fb: "fatbase fs1 = fatbase fs"
    using move_window_fields(6) [of fs "fatbase fs + (c + c div 2) div 512"] m1 by simp
  show ?thesis
    using v t m1 m2 fb by (simp add: put_fat_def Let_def valid_clst_def)
qed

lemma put_fat12:
  assumes ff: "fault_free fs" and t: "fs_type fs = FS_FAT12"
    and v: "valid_clst fs c" and b: "unat c < 4087"
  defines "fs1 \<equiv> snd (move_window fs (fatbase fs + of_nat (pos12 c div 512)))"
  shows "fst (put_fat fs c val) = FR_OK"
    and "fault_free (snd (put_fat fs c val))"
    and "window_ok (snd (put_fat fs c val))"
    and "m < 2 ^ 32 \<Longrightarrow>
         fat_byte (snd (put_fat fs c val)) m =
           (if m = pos12 c + 1
            then (if odd (unat c) then ucast (drop_bit 4 val)
                  else (fat_byte fs1 (pos12 c + 1) AND 0xF0) OR (ucast (drop_bit 8 val) AND 0x0F))
            else if m = pos12 c
            then (if odd (unat c) then (fat_byte fs1 (pos12 c) AND 0x0F) OR push_bit 4 (ucast val)
                  else ucast val)
            else fat_byte fs1 m)"
proof -
  define n where "n = pos12 c"
  define s1 where "s1 = fatbase fs + of_nat (n div 512)"
  define s2 where "s2 = fatbase fs + of_nat ((n + 1) div 512)"
  define b1 where "b1 = (if odd (unat c) then (win fs1 (n mod 512) AND 0x0F) OR push_bit 4 (ucast val)
                         else ucast val)"
  define fs2 where "fs2 = fs1\<lparr>wflag := 1, win := (win fs1)(n mod 512 := b1)\<rparr>"
  define fs3 where "fs3 = snd (move_window fs2 s2)"
  define b2 where "b2 = (if odd (unat c) then ucast (drop_bit 4 val)
             else (win fs3 ((n + 1) mod 512) AND 0xF0) OR (ucast (drop_bit 8 val) AND 0x0F))"
  define fs4 where "fs4 = fs3\<lparr>wflag := 1, win := (win fs3)((n + 1) mod 512 := b2)\<rparr>"
  note pw = pos12_words [OF b, folded n_def]
  have fs1: "fs1 = snd (move_window fs s1)" by (simp add: fs1_def s1_def n_def)
  have ff1: "fault_free fs1" using ff by (simp add: fs1 move_window_ff)
  then have ff2: "fault_free fs2" by (simp add: fs2_def)
  have ok2: "window_ok fs2" by (simp add: fs2_def)
  have ff3: "fault_free fs3" unfolding fs3_def using ff2 by (rule move_window_ff(3))
  have m1: "move_window fs s1 = (FR_OK, fs1)"
    using move_window_ff(1) [OF ff, of s1] by (simp add: fs1 prod_eq_iff)
  have m2: "move_window fs2 s2 = (FR_OK, fs3)"
    using move_window_ff(1) [OF ff2, of s2] by (simp add: fs3_def prod_eq_iff)
  have p: "put_fat fs c val = (FR_OK, fs4)"
    using put_fat12_eq [OF v t, of fs1 val fs3] m1 m2
    by (simp add: pw odd_word s1_def s2_def fs2_def b1_def fs4_def b2_def cong: if_cong)
  show "fst (put_fat fs c val) = FR_OK" by (simp add: p)
  show "fault_free (snd (put_fat fs c val))" using ff3 by (simp add: p fs4_def)
  show "window_ok (snd (put_fat fs c val))" by (simp add: p fs4_def)
  have ws1: "winsect fs1 = s1" using move_window_ff(2) [OF ff, of s1] by (simp add: fs1)
  have fb1: "fatbase fs1 = fatbase fs" by (simp add: fs1)
  have w1: "win fs1 (n mod 512) = fat_byte fs1 n"
    by (simp add: fat_byte_def peek_def ws1 fb1 s1_def)
  have p2: "peek fs2 t k = (if t = s1 \<and> k = n mod 512 then b1 else peek fs1 t k)" for t k
    by (simp add: fs2_def peek_def ws1)
  have ij: "n mod 512 \<noteq> (n + 1) mod 512" by (simp add: mod_Suc)
  have "win fs3 ((n + 1) mod 512) = peek fs2 s2 ((n + 1) mod 512)"
    using move_window_win [OF ff2 ok2, of "(n + 1) mod 512" s2] by (simp add: fs3_def)
  also have "\<dots> = fat_byte fs1 (n + 1)"
    using ij by (simp add: p2 fat_byte_def s2_def fb1)
  finally have w3: "win fs3 ((n + 1) mod 512) = fat_byte fs1 (n + 1)" .
  have p4: "peek fs4 t k = (if t = s2 \<and> k = (n + 1) mod 512 then b2
                             else if t = s1 \<and> k = n mod 512 then b1 else peek fs1 t k)"
    if "k < 512" for t k
  proof -
    have "peek fs4 t k = (if t = s2 \<and> k = (n + 1) mod 512 then b2 else peek fs2 t k)"
      using peek_move_write [OF ff2 ok2 that, of s2 "(n + 1) mod 512" b2 t]
      by (simp add: fs4_def fs3_def)
    then show ?thesis by (simp only: p2)
  qed
  assume m: "m < 2 ^ 32"
  have nb: "n < 2 ^ 32" "n + 1 < 2 ^ 32" using b by (simp_all add: pos12_def n_def)
  have fb: "fatbase fs4 = fatbase fs" by (simp add: fs4_def fs3_def fs2_def fb1)
  have l1: "(fatbase fs + of_nat (m div 512) = s1 \<and> m mod 512 = n mod 512) = (m = n)"
    unfolding s1_def by (rule fat_loc_eq [OF m nb(1)])
  have l2: "(fatbase fs + of_nat (m div 512) = s2 \<and> m mod 512 = (n + 1) mod 512) = (m = n + 1)"
    unfolding s2_def by (rule fat_loc_eq [OF m nb(2)])
  have b1': "b1 = (if odd (unat c) then (fat_byte fs1 n AND 0x0F) OR push_bit 4 (ucast val)
                    else ucast val)"
    by (cases "odd (unat c)") (simp_all add: b1_def w1)
  have b2': "b2 = (if odd (unat c) then ucast (drop_bit 4 val)
             else (fat_byte fs1 (n + 1) AND 0xF0) OR (ucast (drop_bit 8 val) AND 0x0F))"
    using w3 by (cases "odd (unat c)") (simp_all add: b2_def)
  have "fat_byte fs4 m = peek fs4 (fatbase fs + of_nat (m div 512)) (m mod 512)"
    by (simp add: fat_byte_def fb)
  also have "\<dots> = (if fatbase fs + of_nat (m div 512) = s2 \<and> m mod 512 = (n + 1) mod 512 then b2
                      else if fatbase fs + of_nat (m div 512) = s1 \<and> m mod 512 = n mod 512 then b1
                      else peek fs1 (fatbase fs + of_nat (m div 512)) (m mod 512))"
    by (rule p4) simp
  also have "\<dots> = (if m = n + 1 then b2 else if m = n then b1 else fat_byte fs1 m)"
    unfolding l1 l2 by (simp add: fat_byte_def fb1)
  finally have "fat_byte fs4 m = (if m = n + 1 then b2 else if m = n then b1 else fat_byte fs1 m)" .
  then show "fat_byte (snd (put_fat fs c val)) m =
           (if m = pos12 c + 1
            then (if odd (unat c) then ucast (drop_bit 4 val)
                  else (fat_byte fs1 (pos12 c + 1) AND 0xF0) OR (ucast (drop_bit 8 val) AND 0x0F))
            else if m = pos12 c
            then (if odd (unat c) then (fat_byte fs1 (pos12 c) AND 0x0F) OR push_bit 4 (ucast val)
                  else ucast val)
            else fat_byte fs1 m)"
    unfolding p snd_conv b1' b2' n_def .
qed

lemma put_get_fat16:
  assumes ff: "fault_free fs" and t: "fs_type fs = FS_FAT16" and v: "valid_clst fs c"
    and b: "val < 2 ^ 16"
  shows "fst (put_fat fs c val) = FR_OK" 
    and "fst (get_fat (snd (put_fat fs c val)) c) = val"
proof -
  define s where "s = fatbase fs + c div 256"
  define fs1 where "fs1 = snd (move_window fs s)"
  define fs2 where "fs2 = fs1\<lparr>wflag := 1, win := ST_WORD (win fs1) (unat (c * 2 mod 512)) (ucast val)\<rparr>"
  have m1: "move_window fs s = (FR_OK, fs1)"
    using move_window_ff(1) [OF ff, of s] by (simp add: fs1_def prod_eq_iff)
  have nv: "c \<ge> 2 \<and> c < n_fatent fs"
    using v by (auto simp: valid_clst_def)
  have nv': "\<not> c < 2" "\<not> n_fatent fs \<le> c"
    using v by (auto simp: valid_clst_def)
  have p: "put_fat fs c val = (FR_OK, fs2)"
    using nv t m1 by (simp add: put_fat_def Let_def s_def fs2_def)
  have ws: "winsect fs2 = s" using move_window_ff(2) [OF ff, of s] by (simp add: fs2_def fs1_def)
  have g: "fs_type fs2 = FS_FAT16" "n_fatent fs2 = n_fatent fs" "fatbase fs2 = fatbase fs"
    using t by (simp_all add: fs2_def fs1_def)
  have m2: "move_window fs2 s = (FR_OK, fs2)" using ws by (rule move_window_same)
  show "fst (put_fat fs c val) = FR_OK" by (simp add: p)
  show "fst (get_fat (snd (put_fat fs c val)) c) = val"
    using nv' g m2 b unfolding p snd_conv
    by (simp add: get_fat_def Let_def s_def fs2_def LD_ST_WORD ucast16)
qed

lemma put_get_fat32:
  assumes ff: "fault_free fs" and t: "fs_type fs = FS_FAT32" and v: "valid_clst fs c"
    and b: "val < 2 ^ 28"
  shows "fst (put_fat fs c val) = FR_OK" 
    and "fst (get_fat (snd (put_fat fs c val)) c) = val"
proof -
  define s where "s = fatbase fs + c div 128"
  define fs1 where "fs1 = snd (move_window fs s)"
  define i where "i = unat (c * 4 mod 512)"
  define fs2 where "fs2 = fs1\<lparr>wflag := 1, win := ST_DWORD (win fs1) i
        ((val AND 0x0FFFFFFF) OR (LD_DWORD (win fs1) i AND 0xF0000000))\<rparr>"
  have m1: "move_window fs s = (FR_OK, fs1)"
    using move_window_ff(1) [OF ff, of s] by (simp add: fs1_def prod_eq_iff)
  have nv: "c \<ge> 2 \<and> c < n_fatent fs"
    using v by (auto simp: valid_clst_def)
  have nv': "\<not> c < 2" "\<not> n_fatent fs \<le> c"
    using v by (auto simp: valid_clst_def)
  have p: "put_fat fs c val = (FR_OK, fs2)"
    using nv t m1 by (simp add: put_fat_def Let_def s_def fs2_def i_def)
  have ws: "winsect fs2 = s" using move_window_ff(2) [OF ff, of s] by (simp add: fs2_def fs1_def)
  have g: "fs_type fs2 = FS_FAT32" "n_fatent fs2 = n_fatent fs" "fatbase fs2 = fatbase fs"
    using t by (simp_all add: fs2_def fs1_def)
  have m2: "move_window fs2 s = (FR_OK, fs2)" using ws by (rule move_window_same)
  have e: "((val AND mask 28) OR (x AND NOT (mask 28))) AND mask 28 = val" for x :: DWORD
    using b by (intro bit_word_eqI) (auto simp: bit_simps dest: bit_less_exp [where k = 28, simplified])
  show "fst (put_fat fs c val) = FR_OK" by (simp add: p)
  show "fst (get_fat (snd (put_fat fs c val)) c) = val"
    using nv' g m2 unfolding p snd_conv
    by (simp add: get_fat_def Let_def s_def fs2_def LD_ST_DWORD i_def mask28 e)
qed

lemma valid12_bound:
  "valid_clst fs c \<Longrightarrow> n_fatent fs \<le> 0xFF7 \<Longrightarrow> unat c < 4087"
  unfolding valid_clst_def by unat_arith

lemma put_get_fat12:
  assumes ff: "fault_free fs" and t: "fs_type fs = FS_FAT12" and nf: "n_fatent fs \<le> 0xFF7"
    and v: "valid_clst fs c" and b: "val < 2 ^ 12"
  shows "fst (get_fat (snd (put_fat fs c val)) c) = val"
proof -
  let ?fs' = "snd (put_fat fs c val)"
  note cb = valid12_bound [OF v nf]
  note p = put_fat12 [OF ff t v cb, where val = val]
  have t': "fs_type ?fs' = FS_FAT12" and v': "valid_clst ?fs' c"
    using t v by (simp_all add: valid_clst_def)
  have n: "pos12 c < 2 ^ 32" "pos12 c + 1 < 2 ^ 32" using cb by (simp_all add: pos12_def)
  have g: "fst (get_fat ?fs' c) = entry12 (fat_byte ?fs') (pos12 c) (odd (unat c))"
    by (rule get_fat12 [OF p(2) p(3) t' v' cb])
  let ?fs1 = "snd (move_window fs (fatbase fs + of_nat (pos12 c div 512)))"
  have e1: "fat_byte ?fs' (pos12 c) =
              (if odd (unat c) then (fat_byte ?fs1 (pos12 c) AND 0x0F) OR push_bit 4 (ucast val)
               else ucast val)"
    using p(4) [OF n(1)] by simp
  have e2: "fat_byte ?fs' (Suc (pos12 c)) =
              (if odd (unat c) then ucast (drop_bit 4 val)
               else (fat_byte ?fs1 (Suc (pos12 c)) AND 0xF0) OR (ucast (drop_bit 8 val) AND 0x0F))"
    using p(4) [OF n(2)] by simp
  show ?thesis
  proof (cases "odd (unat c)")
    case True
    have "entry12 (fat_byte ?fs') (pos12 c) True
            = entry12 ((fat_byte ?fs')(pos12 c := (fat_byte ?fs' (pos12 c) AND 0x0F) OR push_bit 4 (ucast val),
                 pos12 c + 1 := ucast (drop_bit 4 val))) (pos12 c) True"
      using True by (intro entry12_cong) (simp_all add: e1 e2 nib_low)
    then show ?thesis
      using True entry12_odd [OF b, of "fat_byte ?fs'" "pos12 c" "fat_byte ?fs' (pos12 c)"]
      by (simp add: g)
  next
    case False
    have "entry12 (fat_byte ?fs') (pos12 c) False
            = entry12 ((fat_byte ?fs')(pos12 c := ucast val,
                 pos12 c + 1 := (fat_byte ?fs' (pos12 c + 1) AND 0xF0) OR (ucast (drop_bit 8 val) AND 0x0F)))
                (pos12 c) False"
      using False by (intro entry12_cong) (simp_all add: e1 e2 nib_high)
    then show ?thesis
      using False entry12_even [OF b, of "fat_byte ?fs'" "pos12 c" "fat_byte ?fs' (pos12 c + 1)"]
      by (simp add: g)
  qed
qed

lemma pos12_mono: "a \<le> b \<Longrightarrow> a + a div 2 \<le> b + b div 2" for a b :: nat
  by (simp add: add_mono div_le_mono)

lemma pos12_far:
  fixes a a' :: nat
  assumes "a + 2 \<le> a'"
  shows "a + a div 2 + 3 \<le> a' + a' div 2"
  using pos12_mono [OF assms] by simp

lemma pos12_cases:
  fixes a a' :: nat
  assumes "a' \<noteq> a"
  shows "(a' = Suc a \<and> even a) \<or> (a = Suc a' \<and> even a')
         \<or> (a' + a' div 2 \<noteq> a + a div 2 \<and> a' + a' div 2 \<noteq> Suc (a + a div 2)
              \<and> Suc (a' + a' div 2) \<noteq> a + a div 2)"
proof -
  consider "a + 2 \<le> a'" | "a' = Suc a" | "a' + 2 \<le> a" | "a = Suc a'"
    using assms by linarith
  then show ?thesis
  proof cases
    case 1
    then show ?thesis using pos12_far [OF 1] by simp
  next
    case 2
    then show ?thesis by (cases "even a") simp_all
  next
    case 3
    then show ?thesis using pos12_far [OF 3] by simp
  next
    case 4
    then show ?thesis by (cases "even a'") simp_all
  qed
qed

lemma put_fat12_frame:
  assumes ff: "fault_free fs" and ok: "window_ok fs" and t: "fs_type fs = FS_FAT12"
    and nf: "n_fatent fs \<le> 0xFF7"
    and v: "valid_clst fs c" and v': "valid_clst fs c'" and ne: "c' \<noteq> c"
  shows "fst (get_fat (snd (put_fat fs c val)) c') = fst (get_fat fs c')"
proof -
  let ?fs' = "snd (put_fat fs c val)"
  let ?f = "fat_byte fs" and ?f' = "fat_byte ?fs'"
  let ?n = "pos12 c" and ?n' = "pos12 c'"
  note cb = valid12_bound [OF v nf] and cb' = valid12_bound [OF v' nf]
  note p = put_fat12 [OF ff t v cb, where val = val]
  have t': "fs_type ?fs' = FS_FAT12" and v'': "valid_clst ?fs' c'"
    using t v' by (simp_all add: valid_clst_def)
  have g': "fst (get_fat ?fs' c') = entry12 ?f' ?n' (odd (unat c'))"
    by (rule get_fat12 [OF p(2) p(3) t' v'' cb'])
  have g: "fst (get_fat fs c') = entry12 ?f ?n' (odd (unat c'))"
    by (rule get_fat12 [OF ff ok t v' cb'])
  have e: "?f' m =
             (if m = Suc ?n
              then (if odd (unat c) then ucast (drop_bit 4 val)
                    else (?f (Suc ?n) AND 0xF0) OR (ucast (drop_bit 8 val) AND 0x0F))
              else if m = ?n
              then (if odd (unat c) then (?f ?n AND 0x0F) OR push_bit 4 (ucast val) else ucast val)
              else ?f m)" if "m < 2 ^ 32" for m
    using p(4) [OF that] by (simp add: fat_byte_move [OF ff ok])
  have nb: "?n' < 2 ^ 32" "Suc ?n' < 2 ^ 32" using cb' by (simp_all add: pos12_def)
  have na: "unat c' \<noteq> unat c" using ne by (simp add: word_unat_eq_iff)
  consider (A) "unat c' = Suc (unat c)" "even (unat c)"
    | (B) "unat c = Suc (unat c')" "even (unat c')"
    | (C) "?n' \<noteq> ?n" "?n' \<noteq> Suc ?n" "Suc ?n' \<noteq> ?n"
    using pos12_cases [OF na] unfolding pos12_def by blast
  then have "entry12 ?f' ?n' (odd (unat c')) = entry12 ?f ?n' (odd (unat c'))"
  proof cases
    case A
    then have n: "?n' = Suc ?n" by (auto simp: pos12_def)
    have "entry12 ?f' (Suc ?n) True = entry12 ?f (Suc ?n) True"
      using A(2) nb e [of "Suc ?n"] e [of "Suc (Suc ?n)"]
      by (intro entry12_keep_high) (simp_all add: n nib_high)
    then show ?thesis using A by (simp add: n)
  next
    case B
    then have n: "?n = Suc ?n'" by (auto simp: pos12_def)
    have o: "odd (unat c)" using B by simp
    have "entry12 ?f' ?n' False = entry12 ?f ?n' False"
      using o nb e [of "?n'"] e [of "Suc ?n'"]
      by (intro entry12_keep_low) (simp_all add: n nib_low)
    then show ?thesis using B by simp
  next
    case C
    then show ?thesis
      using nb e [of "?n'"] e [of "Suc ?n'"]
      by (intro entry12_cong) simp_all
  qed
  then show ?thesis by (simp add: g g')
qed

lemma off32: "unat ((c * 4) mod 512 :: DWORD) + 3 < 512"
proof -
  have "unat ((c * 4) mod 512) = ((unat c * 4) mod 2 ^ 32) mod 512"
    by (simp add: unat_mod unat_word_ariths)
  also have "\<dots> = (unat c * 4) mod 512"
    by (simp add: mod_mod_cancel)
  also have "\<dots> = 4 * (unat c mod 128)"
    using mult_mod_right [of 4 "unat c" 128] by (simp add: mult.commute)
  finally have "unat ((c * 4) mod 512) = 4 * (unat c mod 128)" .
  moreover have "unat c mod 128 < 128" by simp
  ultimately show ?thesis by linarith
qed

text \<open>
  Claim C2. On a card without faults, for every volume of one of the three FAT types,
  every cluster \<open>c\<close> in [2, n_fatent) and every value that fits the width of the FAT
  (12, 16 or 28 bits), \<^verbatim>\<open>put_fat\<close> returns \<^verbatim>\<open>FR_OK\<close> and \<^verbatim>\<open>get_fat\<close> then returns the
  value; this includes the FAT12 clusters whose entry lies across two sectors. On a
  FAT12 volume with a coherent window the put keeps the nibble of the neighbour entry in
  the shared byte, and \<^verbatim>\<open>get_fat\<close> of every other valid cluster returns what it returned
  before.
\<close>

theorem put_fat_get_fat:
  assumes ff: "fault_free fs" and fo: "fat_ok fs" and v: "valid_clst fs c"
    and b: "val < 2 ^ fat_bits fs"
  shows "fst (put_fat fs c val) = FR_OK
       \<and> fst (get_fat (snd (put_fat fs c val)) c) = val
       \<and> (fs_type fs = FS_FAT12 \<and> window_ok fs \<longrightarrow>
            (if odd (unat c)
             then fat_byte (snd (put_fat fs c val)) (pos12 c) AND 0x0F = fat_byte fs (pos12 c) AND 0x0F
             else fat_byte (snd (put_fat fs c val)) (pos12 c + 1) AND 0xF0
                    = fat_byte fs (pos12 c + 1) AND 0xF0)
            \<and> (\<forall>c'. valid_clst fs c' \<and> c' \<noteq> c \<longrightarrow>
                   fst (get_fat (snd (put_fat fs c val)) c') = fst (get_fat fs c')))"
proof -
  consider (f12) "fs_type fs = FS_FAT12" "n_fatent fs \<le> 0xFF7"
    | (f16) "fs_type fs = FS_FAT16" | (f32) "fs_type fs = FS_FAT32"
    using fo by (auto simp: fat_ok_def)
  then show ?thesis
  proof cases
    case f12
    note cb = valid12_bound [OF v f12(2)]
    note p = put_fat12 [OF ff f12(1) v cb, where val = val]
    have b12: "val < 2 ^ 12" using b f12 by (simp add: fat_bits_def)
    have n: "pos12 c < 2 ^ 32" "pos12 c + 1 < 2 ^ 32" using cb by (simp_all add: pos12_def)
    have nib: "if odd (unat c)
             then fat_byte (snd (put_fat fs c val)) (pos12 c) AND 0x0F = fat_byte fs (pos12 c) AND 0x0F
             else fat_byte (snd (put_fat fs c val)) (pos12 c + 1) AND 0xF0
                    = fat_byte fs (pos12 c + 1) AND 0xF0" if ok: "window_ok fs"
      using p(4) [OF n(1)] p(4) [OF n(2)]
      by (simp add: fat_byte_move [OF ff ok] nib_low nib_high)
    have fr: "\<forall>c'. valid_clst fs c' \<and> c' \<noteq> c \<longrightarrow>
                   fst (get_fat (snd (put_fat fs c val)) c') = fst (get_fat fs c')"
      if ok: "window_ok fs"
      using put_fat12_frame [OF ff ok f12 v] by blast
    show ?thesis
    proof (intro conjI impI)
      show "fst (put_fat fs c val) = FR_OK" by (rule p(1))
      show "fst (get_fat (snd (put_fat fs c val)) c) = val"
        by (rule put_get_fat12 [OF ff f12 v b12])
    qed (use nib fr in blast)+
  next
    case f16
    have "val < 2 ^ 16" using b f16 by (simp add: fat_bits_def)
    then show ?thesis using put_get_fat16 [OF ff f16 v] by (simp add: f16)
  next
    case f32
    have "val < 2 ^ 28" using b f32 by (simp add: fat_bits_def)
    then show ?thesis using put_get_fat32 [OF ff f32 v] by (simp add: f32)
  qed
qed

theorem put_fat_get_fat_witness:
  "fault_free vol12_big \<and> window_ok vol12_big \<and> fat_ok vol12_big
   \<and> valid_clst vol12_big 341 \<and> valid_clst vol12_big 340
   \<and> pos12 341 mod 512 = 511
   \<and> fst (put_fat vol12_big 341 0xABC) = FR_OK
   \<and> fst (get_fat (snd (put_fat vol12_big 341 0xABC)) 341) = 0xABC
   \<and> fat_byte (snd (put_fat vol12_big 341 0xABC)) 511 AND 0x0F = fat_byte vol12_big 511 AND 0x0F
   \<and> fst (get_fat (snd (put_fat vol12_big 341 0xABC)) 340) = fst (get_fat vol12_big 340)"
proof -
  have h: "fault_free vol12_big" "window_ok vol12_big" "fat_ok vol12_big"
    "valid_clst vol12_big 341" "valid_clst vol12_big 340"
    by (simp_all add: vol12_big_def vol12_def fault_free_def window_ok_def fat_ok_def valid_clst_def
        fat12_card_def)
  have b: "(0xABC :: DWORD) < 2 ^ fat_bits vol12_big"
    by (simp add: fat_bits_def vol12_big_def vol12_def)
  have p: "pos12 341 = 511" by (simp add: pos12_def)
  have t: "fs_type vol12_big = FS_FAT12" by (simp add: vol12_big_def vol12_def)
  show ?thesis
    using put_fat_get_fat [OF h(1) h(3) h(4) b] h t by (simp add: p)
qed

text \<open>
  Claim C9. On a FAT32 volume \<^verbatim>\<open>put_fat\<close> of a valid cluster stores the low 28 bits of
  the value and keeps the top 4 bits of the word stored before:
  the new word is \<open>(val AND 0x0FFFFFFF) OR (old AND 0xF0000000)\<close>. With a coherent window
  no byte of the volume outside the four bytes of the entry changes.
\<close>

theorem put_fat32_keeps_high_bits:
  assumes ff: "fault_free fs" and t: "fs_type fs = FS_FAT32" and v: "valid_clst fs c"
  shows "fst (put_fat fs c val) = FR_OK
       \<and> fat32_slot (snd (put_fat fs c val)) c
             = (val AND 0x0FFFFFFF) OR (fat32_slot fs c AND 0xF0000000)
       \<and> fat32_slot (snd (put_fat fs c val)) c AND 0xF0000000 = fat32_slot fs c AND 0xF0000000
       \<and> (window_ok fs \<longrightarrow>
            (\<forall>t k. k < 512 \<and> \<not> (t = fatbase fs + c div 128 \<and> unat ((c * 4) mod 512) \<le> k
                                    \<and> k \<le> unat ((c * 4) mod 512) + 3)
                   \<longrightarrow> peek (snd (put_fat fs c val)) t k = peek fs t k))"
proof -
  define s where "s = fatbase fs + c div 128"
  define fs1 where "fs1 = snd (move_window fs s)"
  define i where "i = unat (c * 4 mod 512)"
  define old where "old = LD_DWORD (win fs1) i"
  define fs2 where "fs2 = fs1\<lparr>wflag := 1, win := ST_DWORD (win fs1) i
        ((val AND 0x0FFFFFFF) OR (old AND 0xF0000000))\<rparr>"
  have m1: "move_window fs s = (FR_OK, fs1)"
    using move_window_ff(1) [OF ff, of s] by (simp add: fs1_def prod_eq_iff)
  have nv: "c \<ge> 2 \<and> c < n_fatent fs"
    using v by (auto simp: valid_clst_def)
  have p: "put_fat fs c val = (FR_OK, fs2)"
    using nv t m1 by (simp add: put_fat_def Let_def s_def fs2_def i_def old_def)
  have ws: "winsect fs2 = s" "winsect fs1 = s"
    using move_window_ff(2) [OF ff, of s] by (simp_all add: fs2_def fs1_def)
  have fb: "fatbase fs2 = fatbase fs" by (simp add: fs2_def fs1_def)
  have i3: "i + 3 < 512" unfolding i_def by (rule off32)
  have w: "win fs1 k = peek fs s k" if "k < 512" for k
    unfolding fs1_def by (rule move_window_win_target [OF ff that])
  have o: "old = fat32_slot fs c"
    unfolding old_def fat32_slot_def s_def [symmetric] i_def [symmetric]
    using i3 by (intro LD_DWORD_cong w) simp_all
  have n: "fat32_slot fs2 c = (val AND 0x0FFFFFFF) OR (old AND 0xF0000000)"
    unfolding fat32_slot_def fb s_def [symmetric] i_def [symmetric] peek_winsect [OF ws(1)]
    by (simp add: fs2_def LD_ST_DWORD)
  have hi: "((val AND 0x0FFFFFFF) OR (old AND 0xF0000000)) AND 0xF0000000 = old AND 0xF0000000"
    unfolding mask28 by (rule bit_word_eqI) (auto simp: bit_simps)
  have fr: "peek fs2 t k = peek fs t k"
    if ok: "window_ok fs" and k: "k < 512" and nt: "\<not> (t = s \<and> i \<le> k \<and> k \<le> i + 3)" for t k
  proof -
    have "peek fs2 t k = peek fs1 t k"
      using nt by (auto simp: peek_def fs2_def ws ST_DWORD_other)
    also have "\<dots> = peek fs t k"
      unfolding fs1_def by (rule move_window_peek [OF ff ok k])
    finally show ?thesis .
  qed
  show ?thesis
    unfolding p fst_conv snd_conv s_def [symmetric] i_def [symmetric]
    using n o hi fr by simp
qed

theorem put_fat32_keeps_high_bits_witness:
  "fault_free vol32 \<and> fs_type vol32 = FS_FAT32 \<and> valid_clst vol32 300 \<and> window_ok vol32
   \<and> fst (put_fat vol32 300 0xFFFFFFFF) = FR_OK
   \<and> fat32_slot (snd (put_fat vol32 300 0xFFFFFFFF)) 300
         = (0xFFFFFFFF AND 0x0FFFFFFF) OR (fat32_slot vol32 300 AND 0xF0000000)
   \<and> fat32_slot (snd (put_fat vol32 300 0xFFFFFFFF)) 300 AND 0xF0000000
         = fat32_slot vol32 300 AND 0xF0000000
   \<and> peek (snd (put_fat vol32 300 0xFFFFFFFF)) 3 180 = peek vol32 3 180"
proof -
  have h: "fault_free vol32" "fs_type vol32 = FS_FAT32" "valid_clst vol32 300" "window_ok vol32"
    by (simp_all add: vol32_def vol12_def fault_free_def window_ok_def valid_clst_def fat12_card_def)
  have a: "fatbase vol32 + 300 div 128 = 3" "unat ((300 * 4) mod 512 :: DWORD) = 176"
    by (simp_all add: vol32_def vol12_def)
  note r = put_fat32_keeps_high_bits [OF h(1) h(2) h(3), of "0xFFFFFFFF"]
  have "peek (snd (put_fat vol32 300 0xFFFFFFFF)) 3 180 = peek vol32 3 180"
    using r h(4) a by simp
  then show ?thesis
    using r h by blast
qed

section \<open>Names in the root directory\<close>
























end
